theory Spec2Isabelle
  imports Complex_Main
begin

section \<open>Portfolio ledger and trade execution\<close>

text \<open>
  The repository keeps two ledgers. The portfolio store (\<open>usePortfolioStore\<close>) holds
  portfolios with a cash balance, their positions and their transaction log; the user
  interface trades through it. The position store (\<open>usePositionStore\<close>) holds positions
  and transactions tagged with a portfolio id, knows sides and fees, and keeps no cash.
  Both have an \<open>executeTrade\<close>; both are embedded below, the position store's operations
  under the prefix \<open>ps_\<close>.

  A TypeScript \<open>number\<close> is modelled as a real: rounding, infinities and NaN are outside
  the model. A statement about one call states the code's own expressions and
  comparisons; a statement that adds up the results of several calls is exact only in
  exact arithmetic, and says so. A statement that reads a quotient of the source carries a hypothesis that
  makes its divisor non-zero. \<open>Date.now()\<close> and \<open>Math.random()\<close> are inputs: each
  operation takes the clock readings and the generated id tails it consumes.
\<close>

subsection \<open>Data model of the portfolio store\<close>

datatype OrderSide = Buy | Sell

datatype PositionType = Long | Short

record Position =
  pos_id :: string
  pos_symbol :: string
  pos_quantity :: real
  pos_entryPrice :: real
  pos_entryTime :: nat
  pos_type :: PositionType

record Transaction =
  tx_id :: string
  tx_symbol :: string
  tx_type :: OrderSide
  tx_quantity :: real
  tx_price :: real
  tx_timestamp :: nat
  tx_portfolioId :: string

record Portfolio =
  pf_id :: string
  pf_name :: string
  pf_balance :: real
  pf_currentBalance :: real
  pf_initialBalance :: real
  pf_positions :: "Position list"
  pf_transactions :: "Transaction list"
  pf_createdAt :: nat

record PortfolioState =
  portfolios :: "Portfolio list"
  activePortfolioId :: "string option"

record Trade =
  tr_symbol :: string
  tr_type :: OrderSide
  tr_quantity :: real
  tr_price :: real

text \<open>The clock readings and id tails one \<open>executeTrade\<close> call of the portfolio store consumes.\<close>

record TradeEnv =
  env_txTail :: string
  env_txTime :: nat
  env_posTail :: string
  env_posTime :: nat

text \<open>
  The source returns the bare boolean \<open>false\<close> at each early return of \<open>executeTrade\<close>.
  The model keeps which return was taken; \<open>succeeded\<close> is the boolean the caller sees.
\<close>

datatype TradeFailure =
  NoActivePortfolio | PortfolioNotFound | InsufficientFunds | NoPosition | InsufficientQuantity

datatype TradeOutcome = Rejected TradeFailure | Executed

fun succeeded :: "TradeOutcome \<Rightarrow> bool" where
  "succeeded Executed = True"
| "succeeded (Rejected f) = False"

subsection \<open>Array helpers\<close>

text \<open>\<open>Array.prototype.findIndex\<close>: the first index whose element satisfies the test, \<open>None\<close> for -1.\<close>

primrec findIndex :: "('a \<Rightarrow> bool) \<Rightarrow> 'a list \<Rightarrow> nat option" where
  "findIndex P [] = None"
| "findIndex P (x # xs) = (if P x then Some 0 else map_option Suc (findIndex P xs))"

text \<open>\<open>xs.splice(i, 1)\<close>: the array without its element at index \<open>i\<close>.\<close>

definition splice1 :: "nat \<Rightarrow> 'a list \<Rightarrow> 'a list" where
  "splice1 i xs = take i xs @ drop (Suc i) xs"

text \<open>
  \<open>currentPrices[symbol] || fallback\<close>: the fallback is taken when the key is absent and
  also when the stored price is 0, which is falsy.
\<close>

definition priceOr :: "(string \<rightharpoonup> real) \<Rightarrow> string \<Rightarrow> real \<Rightarrow> real" where
  "priceOr currentPrices symbol fallback =
     (case currentPrices symbol of None \<Rightarrow> fallback
      | Some v \<Rightarrow> if v = 0 then fallback else v)"

subsection \<open>Portfolio management\<close>

definition INITIAL_PORTFOLIO_BALANCE :: real where
  "INITIAL_PORTFOLIO_BALANCE = 100000"

text \<open>\<open>createPortfolio\<close>: \<open>tail\<close> stands for the generated \<open>${Date.now()}_${random}\<close>.\<close>

definition createPortfolio ::
  "PortfolioState \<Rightarrow> string \<Rightarrow> string \<Rightarrow> nat \<Rightarrow> string \<times> PortfolioState" where
  "createPortfolio state name tail now =
     (let portfolioId = ''portfolio_'' @ tail;
          newPortfolio = \<lparr> pf_id = portfolioId, pf_name = name, pf_balance = 100000,
            pf_currentBalance = 100000, pf_initialBalance = 100000, pf_positions = [],
            pf_transactions = [], pf_createdAt = now \<rparr>
      in (portfolioId,
          \<lparr> portfolios = portfolios state @ [newPortfolio],
            activePortfolioId =
              (case activePortfolioId state of
                 None \<Rightarrow> Some portfolioId
               | Some a \<Rightarrow> if a = [] then Some portfolioId else Some a) \<rparr>))"

definition deletePortfolio ::
  "PortfolioState \<Rightarrow> string \<Rightarrow> string \<Rightarrow> nat \<Rightarrow> PortfolioState" where
  "deletePortfolio state portfolioId tail now =
     (let remainingPortfolios = filter (\<lambda>p. pf_id p \<noteq> portfolioId) (portfolios state)
      in if length remainingPortfolios = 0
         then (let defaultPortfolioId = ''portfolio_'' @ tail;
                   defaultPortfolio = \<lparr> pf_id = defaultPortfolioId,
                     pf_name = ''Default Portfolio'', pf_balance = 100000,
                     pf_currentBalance = 100000, pf_initialBalance = 100000,
                     pf_positions = [], pf_transactions = [], pf_createdAt = now \<rparr>
               in \<lparr> portfolios = [defaultPortfolio],
                    activePortfolioId = Some defaultPortfolioId \<rparr>)
         else \<lparr> portfolios = remainingPortfolios,
                activePortfolioId =
                  (if activePortfolioId state = Some portfolioId
                   then (case remainingPortfolios of
                           [] \<Rightarrow> None
                         | p # _ \<Rightarrow> if pf_id p = [] then None else Some (pf_id p))
                   else activePortfolioId state) \<rparr>)"

definition setActivePortfolio :: "PortfolioState \<Rightarrow> string \<Rightarrow> PortfolioState" where
  "setActivePortfolio state portfolioId =
     (if \<exists>p \<in> set (portfolios state). pf_id p = portfolioId
      then state \<lparr> activePortfolioId := Some portfolioId \<rparr>
      else state)"

definition getActivePortfolio :: "PortfolioState \<Rightarrow> Portfolio option" where
  "getActivePortfolio state =
     (case activePortfolioId state of
        None \<Rightarrow> None
      | Some a \<Rightarrow> find (\<lambda>p. pf_id p = a) (portfolios state))"

subsection \<open>Trade execution in the portfolio store\<close>

text \<open>The buy branch of \<open>executeTrade\<close>, on the active portfolio \<open>portfolio\<close> with id \<open>a\<close>.\<close>

definition executeBuy ::
  "Portfolio \<Rightarrow> string \<Rightarrow> Trade \<Rightarrow> TradeEnv \<Rightarrow> TradeOutcome \<times> Portfolio" where
  "executeBuy portfolio a trade env =
     (let totalCost = tr_quantity trade * tr_price trade
      in if pf_balance portfolio < totalCost then (Rejected InsufficientFunds, portfolio)
         else
           (let transaction = \<lparr> tx_id = ''tx_'' @ env_txTail env, tx_symbol = tr_symbol trade,
                  tx_type = Buy, tx_quantity = tr_quantity trade, tx_price = tr_price trade,
                  tx_timestamp = env_txTime env, tx_portfolioId = a \<rparr>;
                positions' =
                  (case findIndex (\<lambda>p. pos_symbol p = tr_symbol trade) (pf_positions portfolio) of
                     Some existingPositionIndex \<Rightarrow>
                       (let existingPosition = pf_positions portfolio ! existingPositionIndex;
                            totalQuantity = pos_quantity existingPosition + tr_quantity trade;
                            newAvgPrice =
                              ((pos_quantity existingPosition * pos_entryPrice existingPosition)
                                 + totalCost) / totalQuantity
                        in (pf_positions portfolio)
                             [existingPositionIndex :=
                                existingPosition \<lparr> pos_quantity := totalQuantity,
                                                   pos_entryPrice := newAvgPrice \<rparr>])
                   | None \<Rightarrow>
                       pf_positions portfolio @
                         [\<lparr> pos_id = ''pos_'' @ env_posTail env, pos_symbol = tr_symbol trade,
                            pos_quantity = tr_quantity trade, pos_entryPrice = tr_price trade,
                            pos_entryTime = env_posTime env, pos_type = Long \<rparr>])
            in (Executed,
                portfolio \<lparr> pf_positions := positions',
                            pf_balance := pf_balance portfolio - totalCost,
                            pf_currentBalance := pf_balance portfolio - totalCost,
                            pf_transactions := pf_transactions portfolio @ [transaction] \<rparr>)))"

text \<open>The sell branch of \<open>executeTrade\<close>.\<close>

definition executeSell ::
  "Portfolio \<Rightarrow> string \<Rightarrow> Trade \<Rightarrow> TradeEnv \<Rightarrow> TradeOutcome \<times> Portfolio" where
  "executeSell portfolio a trade env =
     (let totalCost = tr_quantity trade * tr_price trade
      in case findIndex (\<lambda>p. pos_symbol p = tr_symbol trade) (pf_positions portfolio) of
           None \<Rightarrow> (Rejected NoPosition, portfolio)
         | Some positionIndex \<Rightarrow>
             (let position = pf_positions portfolio ! positionIndex
              in if pos_quantity position < tr_quantity trade
                 then (Rejected InsufficientQuantity, portfolio)
                 else
                   (let transaction = \<lparr> tx_id = ''tx_'' @ env_txTail env,
                          tx_symbol = tr_symbol trade, tx_type = Sell,
                          tx_quantity = tr_quantity trade, tx_price = tr_price trade,
                          tx_timestamp = env_txTime env, tx_portfolioId = a \<rparr>;
                        positions' =
                          (if pos_quantity position = tr_quantity trade
                           then splice1 positionIndex (pf_positions portfolio)
                           else (pf_positions portfolio)
                                  [positionIndex :=
                                     position \<lparr> pos_quantity :=
                                       pos_quantity position - tr_quantity trade \<rparr>])
                    in (Executed,
                        portfolio \<lparr> pf_positions := positions',
                                    pf_balance := pf_balance portfolio + totalCost,
                                    pf_currentBalance := pf_balance portfolio + totalCost,
                                    pf_transactions :=
                                      pf_transactions portfolio @ [transaction] \<rparr>))))"

text \<open>
  \<open>executeTrade\<close> of the portfolio store. It trades on the active portfolio; every
  rejection returns before the store is written.
\<close>

definition executeTrade ::
  "PortfolioState \<Rightarrow> Trade \<Rightarrow> TradeEnv \<Rightarrow> TradeOutcome \<times> PortfolioState" where
  "executeTrade state trade env =
     (case activePortfolioId state of
        None \<Rightarrow> (Rejected NoActivePortfolio, state)
      | Some a \<Rightarrow>
          if a = [] then (Rejected NoActivePortfolio, state)
          else
            (case findIndex (\<lambda>p. pf_id p = a) (portfolios state) of
               None \<Rightarrow> (Rejected PortfolioNotFound, state)
             | Some portfolioIndex \<Rightarrow>
                 (let portfolio = portfolios state ! portfolioIndex;
                      result = (case tr_type trade of
                                  Buy \<Rightarrow> executeBuy portfolio a trade env
                                | Sell \<Rightarrow> executeSell portfolio a trade env)
                  in case fst result of
                       Rejected f \<Rightarrow> (Rejected f, state)
                     | Executed \<Rightarrow>
                         (Executed,
                          state \<lparr> portfolios :=
                            (portfolios state)[portfolioIndex := snd result] \<rparr>))))"

subsection \<open>Valuation in the portfolio store\<close>

definition getPortfolioValue :: "PortfolioState \<Rightarrow> string \<Rightarrow> (string \<rightharpoonup> real) \<Rightarrow> real" where
  "getPortfolioValue state portfolioId currentPrices =
     (case find (\<lambda>p. pf_id p = portfolioId) (portfolios state) of
        None \<Rightarrow> 0
      | Some portfolio \<Rightarrow>
          foldl (\<lambda>totalValue position.
                   totalValue + pos_quantity position *
                     priceOr currentPrices (pos_symbol position) (pos_entryPrice position))
                (pf_balance portfolio) (pf_positions portfolio))"

definition getTotalPnL :: "PortfolioState \<Rightarrow> string \<Rightarrow> (string \<rightharpoonup> real) \<Rightarrow> real" where
  "getTotalPnL state portfolioId currentPrices =
     (case find (\<lambda>p. pf_id p = portfolioId) (portfolios state) of
        None \<Rightarrow> 0
      | Some portfolio \<Rightarrow>
          getPortfolioValue state portfolioId currentPrices - pf_initialBalance portfolio)"

subsection \<open>Data model of the position store\<close>

datatype OrderType = Market | Limit

text \<open>
  \<open>Position\<close> and \<open>Transaction\<close> of \<open>types/trading.ts\<close>. \<open>tp_unrealizedPnL\<close> is \<open>None\<close>
  when the stored number is NaN: \<open>executeTrade\<close> computes the figure of a new position
  from an object that has no \<open>quantity\<close>.
\<close>

record TradingPosition =
  tp_id :: string
  tp_portfolioId :: string
  tp_symbol :: string
  tp_side :: OrderSide
  tp_quantity :: real
  tp_entryPrice :: real
  tp_currentPrice :: real
  tp_unrealizedPnL :: "real option"
  tp_unrealizedPnLPercent :: real
  tp_createdAt :: nat
  tp_updatedAt :: nat

record TradingTransaction =
  tt_id :: string
  tt_portfolioId :: string
  tt_symbol :: string
  tt_side :: OrderSide
  tt_quantity :: real
  tt_price :: real
  tt_fee :: real
  tt_total :: real
  tt_timestamp :: nat
  tt_orderId :: "string option"

text \<open>The store's \<open>orders\<close> array is left out: no operation embedded here reads or writes it.\<close>

record PositionStoreState =
  st_positions :: "TradingPosition list"
  st_transactions :: "TradingTransaction list"

text \<open>\<open>Partial<Position>\<close>, with the fields the callers of \<open>updatePosition\<close> set.\<close>

record PositionUpdates =
  upd_quantity :: "real option"
  upd_entryPrice :: "real option"
  upd_currentPrice :: "real option"

text \<open>The clock readings and id tails one \<open>executeTrade\<close> call of the position store may consume.\<close>

record StoreEnv =
  se_txTail :: string
  se_txTime :: nat
  se_updateTime :: nat
  se_closeTxTail :: string
  se_closeTime :: nat
  se_posTail :: string
  se_posTime :: nat

record TradeResult =
  res_success :: bool
  res_positionId :: "string option"
  res_transactionId :: "string option"

subsection \<open>Operations of the position store\<close>

definition DEFAULT_TRADING_FEE_PERCENT :: real where
  "DEFAULT_TRADING_FEE_PERCENT = 1 / 1000"

text \<open>\<open>generateId(prefix)\<close>: \<open>tail\<close> stands for the generated \<open>${Date.now()}_${random}\<close>.\<close>

definition generateId :: "string \<Rightarrow> string \<Rightarrow> string" where
  "generateId prefix tail = prefix @ ''_'' @ tail"

text \<open>
  \<open>calculatePositionPnL\<close>, on the fields it reads. \<open>quantity\<close> is \<open>None\<close> when the object
  passed has none, and the product is then NaN.
\<close>

definition calculatePositionPnL ::
  "OrderSide \<Rightarrow> real \<Rightarrow> real option \<Rightarrow> real \<Rightarrow> real option \<times> real" where
  "calculatePositionPnL side entryPrice quantity currentPrice =
     (let multiplier = (if side = Buy then 1 else - 1);
          priceChange = currentPrice - entryPrice;
          unrealizedPnL = map_option (\<lambda>q. multiplier * priceChange * q) quantity;
          unrealizedPnLPercent =
            (if entryPrice > 0 then (priceChange / entryPrice) * 100 * multiplier else 0)
      in (unrealizedPnL, unrealizedPnLPercent))"

definition ps_addPosition ::
  "PositionStoreState \<Rightarrow> TradingPosition \<Rightarrow> string \<Rightarrow> nat \<Rightarrow> string \<times> PositionStoreState" where
  "ps_addPosition state positionData tail now =
     (let newId = generateId ''pos'' tail;
          newPosition = positionData \<lparr> tp_id := newId, tp_createdAt := now, tp_updatedAt := now \<rparr>
      in (newId, state \<lparr> st_positions := st_positions state @ [newPosition] \<rparr>))"

definition applyUpdates :: "TradingPosition \<Rightarrow> PositionUpdates \<Rightarrow> nat \<Rightarrow> TradingPosition" where
  "applyUpdates position updates now =
     position \<lparr> tp_quantity := (case upd_quantity updates of None \<Rightarrow> tp_quantity position | Some v \<Rightarrow> v),
                tp_entryPrice := (case upd_entryPrice updates of None \<Rightarrow> tp_entryPrice position | Some v \<Rightarrow> v),
                tp_currentPrice := (case upd_currentPrice updates of None \<Rightarrow> tp_currentPrice position | Some v \<Rightarrow> v),
                tp_updatedAt := now \<rparr>"

definition ps_updatePosition ::
  "PositionStoreState \<Rightarrow> string \<Rightarrow> PositionUpdates \<Rightarrow> nat \<Rightarrow> PositionStoreState" where
  "ps_updatePosition state ident updates now =
     state \<lparr> st_positions :=
       map (\<lambda>position. if tp_id position = ident then applyUpdates position updates now
                        else position)
           (st_positions state) \<rparr>"

definition ps_closePosition ::
  "PositionStoreState \<Rightarrow> string \<Rightarrow> real \<Rightarrow> string \<Rightarrow> nat \<Rightarrow> PositionStoreState" where
  "ps_closePosition state ident closePrice tail now =
     (case find (\<lambda>p. tp_id p = ident) (st_positions state) of
        None \<Rightarrow> state
      | Some position \<Rightarrow>
          (let fee = tp_quantity position * closePrice * DEFAULT_TRADING_FEE_PERCENT;
               netAmount = (tp_quantity position * closePrice) - fee;
               closingTransaction = \<lparr> tt_id = generateId ''tx'' tail,
                 tt_portfolioId = tp_portfolioId position, tt_symbol = tp_symbol position,
                 tt_side = (if tp_side position = Buy then Sell else Buy),
                 tt_quantity = tp_quantity position, tt_price = closePrice, tt_fee = fee,
                 tt_total = netAmount, tt_timestamp = now, tt_orderId = None \<rparr>
           in state \<lparr> st_positions := filter (\<lambda>p. tp_id p \<noteq> ident) (st_positions state),
                       st_transactions := st_transactions state @ [closingTransaction] \<rparr>))"

definition ps_addTransaction ::
  "PositionStoreState \<Rightarrow> TradingTransaction \<Rightarrow> string \<Rightarrow> string \<times> PositionStoreState" where
  "ps_addTransaction state transactionData tail =
     (let newId = generateId ''tx'' tail
      in (newId,
          state \<lparr> st_transactions :=
            st_transactions state @ [transactionData \<lparr> tt_id := newId \<rparr>] \<rparr>))"

definition ps_getPositionsByPortfolio ::
  "PositionStoreState \<Rightarrow> string \<Rightarrow> TradingPosition list" where
  "ps_getPositionsByPortfolio state portfolioId =
     filter (\<lambda>p. tp_portfolioId p = portfolioId) (st_positions state)"

definition ps_getPositionBySymbol ::
  "PositionStoreState \<Rightarrow> string \<Rightarrow> string \<Rightarrow> TradingPosition option" where
  "ps_getPositionBySymbol state portfolioId symbol =
     find (\<lambda>p. tp_symbol p = symbol) (ps_getPositionsByPortfolio state portfolioId)"

text \<open>
  \<open>executeTrade\<close> of the position store. Nothing in its \<open>try\<close> block throws on the
  modelled inputs, so the \<open>catch\<close> branch has no counterpart. The order type is taken and
  never read, as in the source.
\<close>

definition ps_executeTrade ::
  "PositionStoreState \<Rightarrow> string \<Rightarrow> string \<Rightarrow> OrderSide \<Rightarrow> real \<Rightarrow> real \<Rightarrow> OrderType \<Rightarrow> StoreEnv
     \<Rightarrow> TradeResult \<times> PositionStoreState" where
  "ps_executeTrade state portfolioId symbol side quantity price otype env =
     (let positions = st_positions state;
          fee = quantity * price * DEFAULT_TRADING_FEE_PERCENT;
          grossAmount = quantity * price;
          netAmount = (if side = Buy then grossAmount + fee else grossAmount - fee);
          added = ps_addTransaction state
                    \<lparr> tt_id = [], tt_portfolioId = portfolioId, tt_symbol = symbol,
                      tt_side = side, tt_quantity = quantity, tt_price = price, tt_fee = fee,
                      tt_total = netAmount, tt_timestamp = se_txTime env, tt_orderId = None \<rparr>
                    (se_txTail env);
          transactionId = fst added;
          state1 = snd added;
          existing = find (\<lambda>p. tp_portfolioId p = portfolioId \<and> tp_symbol p = symbol) positions
      in case existing of
           Some existingPosition \<Rightarrow>
             if tp_side existingPosition = side
             then
               (let newQuantity = tp_quantity existingPosition + quantity;
                    newEntryPrice =
                      (tp_entryPrice existingPosition * tp_quantity existingPosition
                         + price * quantity) / newQuantity
                in (\<lparr> res_success = True, res_positionId = Some (tp_id existingPosition),
                      res_transactionId = Some transactionId \<rparr>,
                    ps_updatePosition state1 (tp_id existingPosition)
                      \<lparr> upd_quantity = Some newQuantity, upd_entryPrice = Some newEntryPrice,
                        upd_currentPrice = Some price \<rparr>
                      (se_updateTime env)))
             else if quantity \<ge> tp_quantity existingPosition
             then
               (let state2 = ps_closePosition state1 (tp_id existingPosition) price
                               (se_closeTxTail env) (se_closeTime env)
                in if quantity > tp_quantity existingPosition
                   then
                     (let remainingQuantity = quantity - tp_quantity existingPosition;
                          pnl = calculatePositionPnL (tp_side existingPosition) price
                                  (Some (tp_quantity existingPosition)) price;
                          opened = ps_addPosition state2
                                     \<lparr> tp_id = [], tp_portfolioId = portfolioId,
                                       tp_symbol = symbol, tp_side = side,
                                       tp_quantity = remainingQuantity, tp_entryPrice = price,
                                       tp_currentPrice = price, tp_unrealizedPnL = fst pnl,
                                       tp_unrealizedPnLPercent = snd pnl,
                                       tp_createdAt = 0, tp_updatedAt = 0 \<rparr>
                                     (se_posTail env) (se_posTime env)
                      in (\<lparr> res_success = True, res_positionId = Some (fst opened),
                            res_transactionId = Some transactionId \<rparr>,
                          snd opened))
                   else (\<lparr> res_success = True, res_positionId = None,
                           res_transactionId = Some transactionId \<rparr>,
                         state2))
             else
               (\<lparr> res_success = True, res_positionId = Some (tp_id existingPosition),
                   res_transactionId = Some transactionId \<rparr>,
                ps_updatePosition state1 (tp_id existingPosition)
                  \<lparr> upd_quantity = Some (tp_quantity existingPosition - quantity),
                    upd_entryPrice = None, upd_currentPrice = Some price \<rparr>
                  (se_updateTime env))
         | None \<Rightarrow>
             (let pnl = calculatePositionPnL side price None price;
                  opened = ps_addPosition state1
                             \<lparr> tp_id = [], tp_portfolioId = portfolioId, tp_symbol = symbol,
                               tp_side = side, tp_quantity = quantity, tp_entryPrice = price,
                               tp_currentPrice = price, tp_unrealizedPnL = fst pnl,
                               tp_unrealizedPnLPercent = snd pnl,
                               tp_createdAt = 0, tp_updatedAt = 0 \<rparr>
                             (se_posTail env) (se_posTime env)
              in (\<lparr> res_success = True, res_positionId = Some (fst opened),
                    res_transactionId = Some transactionId \<rparr>,
                  snd opened)))"

subsection \<open>Valuation in the analytics module\<close>

text \<open>\<open>calculatePositionValue\<close> and \<open>calculatePortfolioValue\<close> of the trading calculations.\<close>

definition calculatePositionValue :: "real \<Rightarrow> real \<Rightarrow> real" where
  "calculatePositionValue quantity currentPrice = quantity * currentPrice"

definition calculatePortfolioValue ::
  "real \<Rightarrow> TradingPosition list \<Rightarrow> (string \<rightharpoonup> real) \<Rightarrow> real" where
  "calculatePortfolioValue cash positions currentPrices =
     (let positionsValue =
            foldl (\<lambda>total position.
                     total + calculatePositionValue (tp_quantity position)
                               (priceOr currentPrices (tp_symbol position)
                                  (tp_currentPrice position)))
                  0 positions
      in cash + positionsValue)"

text \<open>\<open>calculateRealizedPnL\<close> of the trading calculations: net P&L, its percentage, the fees.\<close>

definition calculateRealizedPnL ::
  "real \<Rightarrow> real \<Rightarrow> real \<Rightarrow> OrderSide \<Rightarrow> bool \<Rightarrow> real \<times> real \<times> real" where
  "calculateRealizedPnL entryPrice exitPrice quantity side includesFees =
     (let multiplier = (if side = Buy then 1 else - 1);
          priceChange = exitPrice - entryPrice;
          grossPnL = multiplier * priceChange * quantity;
          fees = (if includesFees
                  then (entryPrice * quantity * DEFAULT_TRADING_FEE_PERCENT)
                         + (exitPrice * quantity * DEFAULT_TRADING_FEE_PERCENT)
                  else 0);
          netPnL = grossPnL - fees;
          pnlPercent = (if entryPrice > 0 then (netPnL / (entryPrice * quantity)) * 100 else 0)
      in (netPnL, pnlPercent, fees))"

subsection \<open>Quantities of the conservation property\<close>

text \<open>
  The terms of the conservation identity, over the portfolio store. The cost basis of the
  open positions is \<open>\<Sum> quantity \<times> entryPrice\<close>. The signed proceeds of a transaction are
  its cash flow: \<open>- quantity \<times> price\<close> for a buy, \<open>+ quantity \<times> price\<close> for a sell. The
  P&L a sell realises is taken against the entry price of the position it sells
  from, fee-free, as \<open>calculateRealizedPnL\<close> computes it for a long position; a buy
  realises nothing.
\<close>

definition costBasis :: "Position list \<Rightarrow> real" where
  "costBasis ps = sum_list (map (\<lambda>p. pos_quantity p * pos_entryPrice p) ps)"

definition signedProceeds :: "Transaction \<Rightarrow> real" where
  "signedProceeds t =
     (case tx_type t of Buy \<Rightarrow> - (tx_quantity t * tx_price t)
      | Sell \<Rightarrow> tx_quantity t * tx_price t)"

definition totalProceeds :: "Transaction list \<Rightarrow> real" where
  "totalProceeds ts = sum_list (map signedProceeds ts)"

definition realizedBy :: "Portfolio \<Rightarrow> Trade \<Rightarrow> real" where
  "realizedBy portfolio trade =
     (case tr_type trade of
        Buy \<Rightarrow> 0
      | Sell \<Rightarrow>
          (case findIndex (\<lambda>p. pos_symbol p = tr_symbol trade) (pf_positions portfolio) of
             None \<Rightarrow> 0
           | Some i \<Rightarrow>
               fst (calculateRealizedPnL (pos_entryPrice (pf_positions portfolio ! i))
                      (tr_price trade) (tr_quantity trade) Buy False)))"

text \<open>
  A sequence of \<open>executeTrade\<close> calls that all succeed, with the P&L realised so far;
  \<open>None\<close> as soon as one call is rejected. The run is one of exact arithmetic: where the
  code's doubles round, its run can reject a sell this one executes, or keep a position
  this one closes.
\<close>

fun runTrades ::
  "PortfolioState \<Rightarrow> real \<Rightarrow> (Trade \<times> TradeEnv) list \<Rightarrow> (PortfolioState \<times> real) option" where
  "runTrades state realized [] = Some (state, realized)"
| "runTrades state realized (step # rest) =
     (case fst (executeTrade state (fst step) (snd step)) of
        Rejected f \<Rightarrow> None
      | Executed \<Rightarrow>
          runTrades (snd (executeTrade state (fst step) (snd step)))
            (realized + (case getActivePortfolio state of
                           None \<Rightarrow> 0
                         | Some p \<Rightarrow> realizedBy p (fst step)))
            rest)"

text \<open>The identity as the specification words it, and the two identities the ledger keeps.\<close>

definition spec_conservation :: "Portfolio \<Rightarrow> real \<Rightarrow> bool" where
  "spec_conservation p realized \<longleftrightarrow>
     pf_balance p + costBasis (pf_positions p) + realized
       = pf_initialBalance p + totalProceeds (pf_transactions p)"

definition conserved :: "Portfolio \<Rightarrow> real \<Rightarrow> bool" where
  "conserved p realized \<longleftrightarrow>
     pf_balance p + costBasis (pf_positions p) = pf_initialBalance p + realized
     \<and> pf_balance p = pf_initialBalance p + totalProceeds (pf_transactions p)"

definition positiveQuantities :: "Portfolio \<Rightarrow> bool" where
  "positiveQuantities p \<longleftrightarrow> list_all (\<lambda>x. 0 < pos_quantity x) (pf_positions p)"

subsection \<open>Initial states and sample inputs\<close>

text \<open>The initial state of each store, as its \<open>create\<close> call sets it.\<close>

definition initialPortfolioState :: PortfolioState where
  "initialPortfolioState = \<lparr> portfolios = [], activePortfolioId = None \<rparr>"

definition initialPositionStore :: PositionStoreState where
  "initialPositionStore = \<lparr> st_positions = [], st_transactions = [] \<rparr>"

text \<open>Sample inputs for the concrete instances below.\<close>

definition freshStore :: PortfolioState where
  "freshStore = snd (createPortfolio initialPortfolioState ''Main Portfolio'' ''1_a'' 1)"

definition mkTrade :: "string \<Rightarrow> OrderSide \<Rightarrow> real \<Rightarrow> real \<Rightarrow> Trade" where
  "mkTrade symbol side quantity price =
     \<lparr> tr_symbol = symbol, tr_type = side, tr_quantity = quantity, tr_price = price \<rparr>"

definition mkEnv :: "string \<Rightarrow> nat \<Rightarrow> TradeEnv" where
  "mkEnv tail now =
     \<lparr> env_txTail = tail, env_txTime = now, env_posTail = tail, env_posTime = now \<rparr>"

definition mkStoreEnv :: "string \<Rightarrow> nat \<Rightarrow> StoreEnv" where
  "mkStoreEnv tail now =
     \<lparr> se_txTail = tail, se_txTime = now, se_updateTime = now, se_closeTxTail = tail @ ''c'',
       se_closeTime = now, se_posTail = tail, se_posTime = now \<rparr>"

definition sampleTrades :: "(Trade \<times> TradeEnv) list" where
  "sampleTrades =
     [(mkTrade ''BTC'' Buy 1 100, mkEnv ''2_a'' 2),
      (mkTrade ''BTC'' Buy 1 200, mkEnv ''3_a'' 3),
      (mkTrade ''BTC'' Sell 1 300, mkEnv ''4_a'' 4)]"

text \<open>The portfolio of \<open>freshStore\<close> after buying 1 BTC at 50000.\<close>

definition sampleAfterBuy :: Portfolio where
  "sampleAfterBuy =
     \<lparr> pf_id = ''portfolio_1_a'', pf_name = ''Main Portfolio'', pf_balance = 50000,
       pf_currentBalance = 50000, pf_initialBalance = 100000,
       pf_positions = [\<lparr> pos_id = ''pos_2_a'', pos_symbol = ''BTC'', pos_quantity = 1,
                         pos_entryPrice = 50000, pos_entryTime = 2, pos_type = Long \<rparr>],
       pf_transactions = [\<lparr> tx_id = ''tx_2_a'', tx_symbol = ''BTC'', tx_type = Buy,
                            tx_quantity = 1, tx_price = 50000, tx_timestamp = 2,
                            tx_portfolioId = ''portfolio_1_a'' \<rparr>],
       pf_createdAt = 1 \<rparr>"

definition twoPortfolios :: PortfolioState where
  "twoPortfolios = snd (createPortfolio freshStore ''Second'' ''2_b'' 2)"

text \<open>
  The position store after the tests' \<open>addPosition\<close> of one BTC position of the portfolio
  \<open>test-portfolio-1\<close>, with the given side, quantity and entry price.
\<close>

definition samplePosition :: "OrderSide \<Rightarrow> real \<Rightarrow> real \<Rightarrow> TradingPosition" where
  "samplePosition side quantity entryPrice =
     \<lparr> tp_id = ''pos_1_a'', tp_portfolioId = ''test-portfolio-1'', tp_symbol = ''BTC'',
       tp_side = side, tp_quantity = quantity, tp_entryPrice = entryPrice,
       tp_currentPrice = entryPrice, tp_unrealizedPnL = Some 0, tp_unrealizedPnLPercent = 0,
       tp_createdAt = 1, tp_updatedAt = 1 \<rparr>"

definition storeHolding :: "OrderSide \<Rightarrow> real \<Rightarrow> real \<Rightarrow> PositionStoreState" where
  "storeHolding side quantity entryPrice =
     \<lparr> st_positions = [samplePosition side quantity entryPrice], st_transactions = [] \<rparr>"

subsection \<open>The valuation formula as the specification words it\<close>

text \<open>
  \<open>cashBalance + \<Sum> quantity \<times> (priceMap[symbol] ?? entryPrice)\<close> over holdings given as
  (symbol, quantity, entry price): the fallback is taken only when the map has no entry.
\<close>

definition spec_portfolioValue ::
  "real \<Rightarrow> (string \<times> real \<times> real) list \<Rightarrow> (string \<rightharpoonup> real) \<Rightarrow> real" where
  "spec_portfolioValue cashBalance holdings priceMap =
     cashBalance +
       sum_list (map (\<lambda>h. fst (snd h) *
                            (case priceMap (fst h) of None \<Rightarrow> snd (snd h) | Some v \<Rightarrow> v))
                     holdings)"

definition holdingsOf :: "Portfolio \<Rightarrow> (string \<times> real \<times> real) list" where
  "holdingsOf portfolio =
     map (\<lambda>p. (pos_symbol p, pos_quantity p, pos_entryPrice p)) (pf_positions portfolio)"

definition tradingHoldings :: "TradingPosition list \<Rightarrow> (string \<times> real \<times> real) list" where
  "tradingHoldings positions =
     map (\<lambda>p. (tp_symbol p, tp_quantity p, tp_entryPrice p)) positions"

subsection \<open>The store after initialisation\<close>

text \<open>
  A store is initialised when its active id names one of its portfolios and no portfolio
  has the empty id. \<open>createPortfolio\<close> on the initial state establishes this, and every
  id the store generates starts with \<open>portfolio_\<close>; creating a portfolio, setting the
  active portfolio, trading and deleting a portfolio all keep it.
\<close>

definition initialized :: "PortfolioState \<Rightarrow> bool" where
  "initialized state \<longleftrightarrow>
     list_ex (\<lambda>p. activePortfolioId state = Some (pf_id p)) (portfolios state)
     \<and> list_all (\<lambda>p. pf_id p \<noteq> []) (portfolios state)"

section \<open>Properties\<close>

subsection \<open>Facts about the array helpers\<close>

lemma findIndex_Some:
  "findIndex P xs = Some i \<Longrightarrow> i < length xs \<and> P (xs ! i) \<and> (\<forall>j<i. \<not> P (xs ! j))"
proof (induction xs arbitrary: i)
  case Nil
  then show ?case by simp
next
  case (Cons x xs)
  show ?case
  proof (cases "P x")
    case True
    with Cons.prems show ?thesis by simp
  next
    case False
    with Cons.prems obtain k where k: "findIndex P xs = Some k" "i = Suc k"
      by auto
    from Cons.IH[OF k(1)] False k(2) show ?thesis
      by (auto simp: less_Suc_eq_0_disj)
  qed
qed

lemma findIndex_None: "findIndex P xs = None \<longleftrightarrow> (\<forall>x \<in> set xs. \<not> P x)"
  by (induction xs) auto

lemma find_findIndex: "find P xs = map_option (nth xs) (findIndex P xs)"
  by (induction xs) (auto simp: option.map_comp comp_def)

lemma findIndex_update:
  "findIndex P xs = Some i \<Longrightarrow> P y \<Longrightarrow> findIndex P (xs[i := y]) = Some i"
proof (induction xs arbitrary: i)
  case Nil
  then show ?case by simp
next
  case (Cons x xs)
  show ?case
  proof (cases "P x")
    case True
    with Cons.prems show ?thesis by simp
  next
    case False
    with Cons.prems obtain k where k: "findIndex P xs = Some k" "i = Suc k"
      by auto
    with Cons.IH[OF k(1) Cons.prems(2)] False show ?thesis by simp
  qed
qed

lemma list_all_update: "list_all P xs \<Longrightarrow> P y \<Longrightarrow> list_all P (xs[i := y])"
  by (induction xs arbitrary: i) (auto split: nat.splits)

lemma list_all_splice1: "list_all P xs \<Longrightarrow> list_all P (splice1 i xs)"
  unfolding splice1_def list_all_iff
  by (auto dest: in_set_takeD in_set_dropD)

text \<open>The equations that evaluate the portfolio store on concrete inputs.\<close>

lemmas store_defs = freshStore_def initialPortfolioState_def createPortfolio_def
  executeTrade_def executeBuy_def executeSell_def mkTrade_def mkEnv_def
  getActivePortfolio_def splice1_def Let_def

subsection \<open>How a successful trade rewrites the store\<close>

lemma executeTrade_Executed:
  assumes "fst (executeTrade s t e) = Executed"
  obtains a i p' where
    "activePortfolioId s = Some a" "a \<noteq> []"
    "findIndex (\<lambda>p. pf_id p = a) (portfolios s) = Some i"
    "(case tr_type t of Buy \<Rightarrow> executeBuy (portfolios s ! i) a t e
      | Sell \<Rightarrow> executeSell (portfolios s ! i) a t e) = (Executed, p')"
    "snd (executeTrade s t e) = s \<lparr> portfolios := (portfolios s)[i := p'] \<rparr>"
proof -
  from assms obtain a where a: "activePortfolioId s = Some a" "a \<noteq> []"
    by (auto simp: executeTrade_def split: option.splits if_splits)
  from assms a obtain i where i: "findIndex (\<lambda>p. pf_id p = a) (portfolios s) = Some i"
    by (auto simp: executeTrade_def split: option.splits)
  let ?res = "(case tr_type t of Buy \<Rightarrow> executeBuy (portfolios s ! i) a t e
      | Sell \<Rightarrow> executeSell (portfolios s ! i) a t e)"
  from assms a i have ok: "fst ?res = Executed"
    by (auto simp: executeTrade_def Let_def split: TradeOutcome.splits)
  then have res: "?res = (Executed, snd ?res)" by (metis prod.collapse)
  from a i ok have "snd (executeTrade s t e) = s \<lparr> portfolios := (portfolios s)[i := snd ?res] \<rparr>"
    by (simp add: executeTrade_def Let_def)
  with a i res show ?thesis using that by blast
qed

lemma getActivePortfolio_index:
  "activePortfolioId s = Some a \<Longrightarrow> findIndex (\<lambda>p. pf_id p = a) (portfolios s) = Some i
   \<Longrightarrow> getActivePortfolio s = Some (portfolios s ! i)"
  by (simp add: getActivePortfolio_def find_findIndex)

lemma executeTrade_on_active:
  assumes a: "activePortfolioId s = Some a" "a \<noteq> []"
    and p: "getActivePortfolio s = Some p"
  shows "fst (executeTrade s t e) =
           fst (case tr_type t of Buy \<Rightarrow> executeBuy p a t e | Sell \<Rightarrow> executeSell p a t e)"
    and "fst (executeTrade s t e) = Executed \<Longrightarrow>
           getActivePortfolio (snd (executeTrade s t e)) =
             Some (snd (case tr_type t of Buy \<Rightarrow> executeBuy p a t e
                        | Sell \<Rightarrow> executeSell p a t e))"
    and "(\<exists>f. fst (executeTrade s t e) = Rejected f) \<Longrightarrow> snd (executeTrade s t e) = s"
proof -
  from p a obtain i where
    i: "findIndex (\<lambda>p. pf_id p = a) (portfolios s) = Some i"
    and pi: "p = portfolios s ! i"
    by (auto simp: getActivePortfolio_def find_findIndex)
  let ?res = "(case tr_type t of Buy \<Rightarrow> executeBuy p a t e | Sell \<Rightarrow> executeSell p a t e)"
  show fst_eq: "fst (executeTrade s t e) = fst ?res"
    using a i pi by (auto simp: executeTrade_def Let_def split: TradeOutcome.splits)
  show "(\<exists>f. fst (executeTrade s t e) = Rejected f) \<Longrightarrow> snd (executeTrade s t e) = s"
    using a i pi by (auto simp: executeTrade_def Let_def split: TradeOutcome.splits)
  assume ok: "fst (executeTrade s t e) = Executed"
  with fst_eq have ok': "fst ?res = Executed" by simp
  with a i pi have s': "snd (executeTrade s t e) = s \<lparr> portfolios := (portfolios s)[i := snd ?res] \<rparr>"
    by (auto simp: executeTrade_def Let_def)
  have idp: "pf_id (snd ?res) = pf_id p"
    by (cases "tr_type t")
       (auto simp: executeBuy_def executeSell_def Let_def split: option.splits if_splits)
  from findIndex_Some[OF i] pi have "pf_id p = a" and il: "i < length (portfolios s)" by simp_all
  with idp have "pf_id (snd ?res) = a" by simp
  with findIndex_update[OF i, of "snd ?res"]
  have "findIndex (\<lambda>p. pf_id p = a) ((portfolios s)[i := snd ?res]) = Some i" by simp
  with a il show "getActivePortfolio (snd (executeTrade s t e)) = Some (snd ?res)"
    by (simp add: s' getActivePortfolio_def find_findIndex)
qed

lemma foldl_plus_sum_list:
  "foldl (\<lambda>total x. total + f x) a xs = (a::real) + sum_list (map f xs)"
  by (induction xs arbitrary: a) simp_all

subsection \<open>Conservation\<close>

lemma costBasis_append:
  "costBasis (xs @ [p]) = costBasis xs + pos_quantity p * pos_entryPrice p"
  by (simp add: costBasis_def)

lemma costBasis_update:
  "i < length xs \<Longrightarrow>
   costBasis (xs[i := y]) =
     costBasis xs - pos_quantity (xs ! i) * pos_entryPrice (xs ! i)
       + pos_quantity y * pos_entryPrice y"
proof (induction xs arbitrary: i)
  case Nil
  then show ?case by simp
next
  case (Cons x xs)
  then show ?case
    by (cases i) (simp_all add: costBasis_def)
qed

lemma costBasis_splice1:
  "i < length xs \<Longrightarrow>
   costBasis (splice1 i xs) = costBasis xs - pos_quantity (xs ! i) * pos_entryPrice (xs ! i)"
proof (induction xs arbitrary: i)
  case Nil
  then show ?case by simp
next
  case (Cons x xs)
  then show ?case
    by (cases i) (simp_all add: costBasis_def splice1_def)
qed

lemma totalProceeds_append: "totalProceeds (ts @ [t]) = totalProceeds ts + signedProceeds t"
  by (simp add: totalProceeds_def)


lemma executeBuy_conserved:
  assumes ex: "executeBuy p a t e = (Executed, p')"
    and q: "0 < tr_quantity t"
    and pos: "positiveQuantities p"
    and inv: "conserved p r"
  shows "conserved p' (r + realizedBy p (t\<lparr>tr_type := Buy\<rparr>)) \<and> positiveQuantities p' \<and> pf_id p' = pf_id p
         \<and> pf_initialBalance p' = pf_initialBalance p"
proof -
  let ?cost = "tr_quantity t * tr_price t"
  let ?tx = "\<lparr> tx_id = ''tx_'' @ env_txTail e, tx_symbol = tr_symbol t,
                  tx_type = Buy, tx_quantity = tr_quantity t, tx_price = tr_price t,
                  tx_timestamp = env_txTime e, tx_portfolioId = a \<rparr>"
  from ex have funds: "\<not> pf_balance p < ?cost"
    by (auto simp: executeBuy_def Let_def split: if_splits)
  have sp: "signedProceeds ?tx = - ?cost" by (simp add: signedProceeds_def)
  have rb: "realizedBy p (t\<lparr>tr_type := Buy\<rparr>) = 0" by (simp add: realizedBy_def)
  show ?thesis
  proof (cases "findIndex (\<lambda>x. pos_symbol x = tr_symbol t) (pf_positions p)")
    case None
    let ?np = "\<lparr> pos_id = ''pos_'' @ env_posTail e, pos_symbol = tr_symbol t,
                            pos_quantity = tr_quantity t, pos_entryPrice = tr_price t,
                            pos_entryTime = env_posTime e, pos_type = Long \<rparr>"
    from ex funds None have p': "p' = p \<lparr> pf_positions := pf_positions p @ [?np],
                            pf_balance := pf_balance p - ?cost,
                            pf_currentBalance := pf_balance p - ?cost,
                            pf_transactions := pf_transactions p @ [?tx] \<rparr>"
      by (simp add: executeBuy_def Let_def)
    show ?thesis
      using inv pos q sp 
      by (simp add: p' rb conserved_def positiveQuantities_def costBasis_append totalProceeds_append)
  next
    case (Some j)
    let ?ex = "pf_positions p ! j"
    let ?tq = "pos_quantity ?ex + tr_quantity t"
    let ?avg = "((pos_quantity ?ex * pos_entryPrice ?ex) + ?cost) / ?tq"
    from findIndex_Some[OF Some] have j: "j < length (pf_positions p)" by simp
    from pos j have "0 < pos_quantity ?ex"
      by (simp add: positiveQuantities_def list_all_length)
    with q have tq: "0 < ?tq" by simp
    from ex funds Some have p': "p' = p \<lparr> pf_positions := (pf_positions p)[j := ?ex\<lparr>pos_quantity := ?tq, pos_entryPrice := ?avg\<rparr>],
                            pf_balance := pf_balance p - ?cost,
                            pf_currentBalance := pf_balance p - ?cost,
                            pf_transactions := pf_transactions p @ [?tx] \<rparr>"
      by (simp add: executeBuy_def Let_def)
    have avg: "?tq * ?avg = pos_quantity ?ex * pos_entryPrice ?ex + ?cost"
      using tq by simp
    have cb: "costBasis (pf_positions p') = costBasis (pf_positions p) + ?cost"
      using j avg by (simp add: p' costBasis_update)
    have pq: "positiveQuantities p'"
      using pos tq by (simp add: p' positiveQuantities_def list_all_update)
    show ?thesis
      using inv sp pq cb by (simp add: p' rb conserved_def totalProceeds_append)
  qed
qed

lemma executeSell_conserved:
  assumes ex: "executeSell p a t e = (Executed, p')"
    and q: "0 < tr_quantity t"
    and pos: "positiveQuantities p"
    and inv: "conserved p r"
  shows "conserved p' (r + realizedBy p (t\<lparr>tr_type := Sell\<rparr>)) \<and> positiveQuantities p' \<and> pf_id p' = pf_id p
         \<and> pf_initialBalance p' = pf_initialBalance p"
proof -
  let ?cost = "tr_quantity t * tr_price t"
  let ?tx = "\<lparr> tx_id = ''tx_'' @ env_txTail e, tx_symbol = tr_symbol t,
                  tx_type = Sell, tx_quantity = tr_quantity t, tx_price = tr_price t,
                  tx_timestamp = env_txTime e, tx_portfolioId = a \<rparr>"
  from ex obtain j where Some: "findIndex (\<lambda>x. pos_symbol x = tr_symbol t) (pf_positions p) = Some j"
    by (auto simp: executeSell_def Let_def split: option.splits)
  let ?pos = "pf_positions p ! j"
  from ex Some have enough: "\<not> pos_quantity ?pos < tr_quantity t"
    by (auto simp: executeSell_def Let_def split: if_splits)
  from findIndex_Some[OF Some] have j: "j < length (pf_positions p)" by simp
  have sp: "signedProceeds ?tx = ?cost" by (simp add: signedProceeds_def)
  have rb: "realizedBy p (t\<lparr>tr_type := Sell\<rparr>) = (tr_price t - pos_entryPrice ?pos) * tr_quantity t"
    by (simp add: realizedBy_def Some calculateRealizedPnL_def Let_def)
  let ?positions' = "(if pos_quantity ?pos = tr_quantity t
                           then splice1 j (pf_positions p)
                           else (pf_positions p)[j := ?pos \<lparr> pos_quantity := pos_quantity ?pos - tr_quantity t \<rparr>])"
  from ex Some enough have p': "p' = p \<lparr> pf_positions := ?positions',
                            pf_balance := pf_balance p + ?cost,
                            pf_currentBalance := pf_balance p + ?cost,
                            pf_transactions := pf_transactions p @ [?tx] \<rparr>"
    by (simp add: executeSell_def Let_def)
  have cb: "costBasis ?positions' = costBasis (pf_positions p) - tr_quantity t * pos_entryPrice ?pos"
    using j by (simp add: costBasis_update costBasis_splice1 algebra_simps)
  have pq: "list_all (\<lambda>x. 0 < pos_quantity x) ?positions'"
    using pos enough by (auto simp: positiveQuantities_def list_all_update list_all_splice1)
  show ?thesis
    using inv sp pq cb by (simp add: p' rb conserved_def positiveQuantities_def totalProceeds_append algebra_simps)
qed

lemma executeTrade_conserved:
  assumes ex: "fst (executeTrade s t e) = Executed"
    and q: "0 < tr_quantity t"
    and act: "getActivePortfolio s = Some p"
    and pos: "positiveQuantities p"
    and inv: "conserved p r"
  shows "\<exists>p'. getActivePortfolio (snd (executeTrade s t e)) = Some p'
           \<and> conserved p' (r + realizedBy p t) \<and> positiveQuantities p'
           \<and> pf_initialBalance p' = pf_initialBalance p"
proof -
  from ex obtain a i p' where
    a: "activePortfolioId s = Some a" "a \<noteq> []" and
    i: "findIndex (\<lambda>p. pf_id p = a) (portfolios s) = Some i" and
    br: "(case tr_type t of Buy \<Rightarrow> executeBuy (portfolios s ! i) a t e
      | Sell \<Rightarrow> executeSell (portfolios s ! i) a t e) = (Executed, p')" and
    s': "snd (executeTrade s t e) = s \<lparr> portfolios := (portfolios s)[i := p'] \<rparr>"
    by (rule executeTrade_Executed)
  from act a i have p: "p = portfolios s ! i"
    by (simp add: getActivePortfolio_index)
  from findIndex_Some[OF i] have il: "i < length (portfolios s)" and ida: "pf_id (portfolios s ! i) = a"
    by simp_all
  have step: "conserved p' (r + realizedBy p t) \<and> positiveQuantities p' \<and> pf_id p' = pf_id p
         \<and> pf_initialBalance p' = pf_initialBalance p"
  proof (cases "tr_type t")
    case Buy
    then have "t\<lparr>tr_type := Buy\<rparr> = t" by simp
    with executeBuy_conserved[of p a t e p' r] br Buy q pos inv p show ?thesis by simp
  next
    case Sell
    then have "t\<lparr>tr_type := Sell\<rparr> = t" by simp
    with executeSell_conserved[of p a t e p' r] br Sell q pos inv p show ?thesis by simp
  qed
  with ida p have "pf_id p' = a" by simp
  with findIndex_update[OF i, of p'] have "findIndex (\<lambda>p. pf_id p = a) ((portfolios s)[i := p']) = Some i"
    by simp
  with a il have "getActivePortfolio (snd (executeTrade s t e)) = Some p'"
    by (simp add: s' getActivePortfolio_def find_findIndex)
  with step show ?thesis by simp
qed

lemma runTrades_conserved:
  assumes "runTrades s r trades = Some (s', r')"
    and "\<forall>step \<in> set trades. 0 < tr_quantity (fst step)"
    and "getActivePortfolio s = Some p"
    and "positiveQuantities p"
    and "conserved p r"
  shows "\<exists>p'. getActivePortfolio s' = Some p' \<and> conserved p' r' \<and> positiveQuantities p'
           \<and> pf_initialBalance p' = pf_initialBalance p"
  using assms
proof (induction trades arbitrary: s r p)
  case Nil
  then show ?case by simp
next
  case (Cons step rest)
  from Cons.prems(1) have ex: "fst (executeTrade s (fst step) (snd step)) = Executed"
    by (auto split: TradeOutcome.splits)
  from Cons.prems(2) have q: "0 < tr_quantity (fst step)" by simp
  from executeTrade_conserved[OF ex q Cons.prems(3,4,5)]
  obtain p1 where p1: "getActivePortfolio (snd (executeTrade s (fst step) (snd step))) = Some p1"
    "conserved p1 (r + realizedBy p (fst step))" "positiveQuantities p1"
    "pf_initialBalance p1 = pf_initialBalance p"
    by blast
  from Cons.prems(1) ex Cons.prems(3)
  have run: "runTrades (snd (executeTrade s (fst step) (snd step))) (r + realizedBy p (fst step)) rest = Some (s', r')"
    by simp
  from Cons.prems(2) have rest: "\<forall>step \<in> set rest. 0 < tr_quantity (fst step)" by simp
  from Cons.IH[OF run rest p1(1) p1(3) p1(2)] p1(4) show ?case by simp
qed

text \<open>
  C1 (as worded). The specification's identity
  \<open>cash + cost basis + realised P&L = initialBalance + signed proceeds\<close> fails after the
  first buy of a fresh portfolio: buying 1 BTC at 50000 leaves cash 50000 and cost basis
  50000, so the left side is 100000, while the right side is 100000 - 50000 (and
  100000 + 50000 if a buy's proceeds were counted positive). Cash already holds what the
  sells realised, so the left side counts realised P&L twice.
\<close>

theorem conservation_as_worded_fails:
  "runTrades freshStore 0 [(mkTrade ''BTC'' Buy 1 50000, mkEnv ''2_a'' 2)] =
     Some (\<lparr> portfolios = [sampleAfterBuy], activePortfolioId = Some ''portfolio_1_a'' \<rparr>, 0)
   \<and> getActivePortfolio
         \<lparr> portfolios = [sampleAfterBuy], activePortfolioId = Some ''portfolio_1_a'' \<rparr>
       = Some sampleAfterBuy
   \<and> pf_balance sampleAfterBuy + costBasis (pf_positions sampleAfterBuy) + 0 = 100000
   \<and> pf_initialBalance sampleAfterBuy + totalProceeds (pf_transactions sampleAfterBuy) = 50000
   \<and> pf_initialBalance sampleAfterBuy - totalProceeds (pf_transactions sampleAfterBuy) = 150000
   \<and> \<not> spec_conservation sampleAfterBuy 0"
  by (simp add: store_defs sampleAfterBuy_def realizedBy_def spec_conservation_def
        costBasis_def totalProceeds_def signedProceeds_def)

text \<open>
  C1 (amended). Read over exact arithmetic: the ledger's numbers are reals here, and
  the rounding of the code's doubles is set aside. Start from a store whose active
  portfolio is fresh (cash equal to the initial balance, no positions, no transactions)
  and run any sequence of successful \<open>executeTrade\<close> calls, each with a positive
  quantity. Then the active portfolio satisfies
  \<open>cash + \<Sum> quantity \<times> entryPrice = initialBalance + realised P&L\<close> and
  \<open>cash = initialBalance + \<Sum> signed proceeds\<close>. The statement covers every prefix of
  a run, hence the state after each trade. On doubles the two identities hold only up to
  the rounding error of the operations performed, and a run can take another branch
  where rounding moves a comparison.
\<close>

theorem ledger_conservation:
  assumes fresh: "getActivePortfolio s0 = Some p0" "pf_balance p0 = pf_initialBalance p0"
      "pf_positions p0 = []" "pf_transactions p0 = []"
    and valid: "list_all (\<lambda>step. 0 < tr_quantity (fst step)) trades"
    and run: "runTrades s0 0 trades = Some (s, realized)"
  shows "\<exists>p. getActivePortfolio s = Some p
           \<and> pf_initialBalance p = pf_initialBalance p0
           \<and> pf_balance p + costBasis (pf_positions p) = pf_initialBalance p + realized
           \<and> pf_balance p = pf_initialBalance p + totalProceeds (pf_transactions p)"
proof -
  have start: "conserved p0 0"
    using fresh by (simp add: conserved_def costBasis_def totalProceeds_def)
  have pq: "positiveQuantities p0"
    using fresh by (simp add: positiveQuantities_def)
  from valid have valid': "\<forall>step \<in> set trades. 0 < tr_quantity (fst step)"
    by (simp add: list_all_iff)
  from runTrades_conserved[OF run valid' fresh(1) pq start]
  show ?thesis by (auto simp: conserved_def)
qed

theorem ledger_conservation_witness:
  "\<exists>p. getActivePortfolio (fst (the (runTrades freshStore 0 sampleTrades))) = Some p
     \<and> pf_initialBalance p = 100000
     \<and> pf_balance p + costBasis (pf_positions p) = pf_initialBalance p + 150
     \<and> pf_balance p = pf_initialBalance p + totalProceeds (pf_transactions p)"
proof -
  let ?p0 = "\<lparr> pf_id = ''portfolio_1_a'', pf_name = ''Main Portfolio'', pf_balance = 100000,
            pf_currentBalance = 100000, pf_initialBalance = 100000, pf_positions = [],
            pf_transactions = [], pf_createdAt = 1 \<rparr>"
  have a: "getActivePortfolio freshStore = Some ?p0"
    by (simp add: store_defs)
  have v: "list_all (\<lambda>step. 0 < tr_quantity (fst step)) sampleTrades"
    by (simp add: sampleTrades_def mkTrade_def)
  have "\<exists>s. runTrades freshStore 0 sampleTrades = Some (s, 150)"
    by (simp add: sampleTrades_def store_defs realizedBy_def calculateRealizedPnL_def)
  then obtain s where r: "runTrades freshStore 0 sampleTrades = Some (s, 150)" ..
  from ledger_conservation[OF a _ _ _ v r] show ?thesis
    by (simp add: r)
qed

subsection \<open>Rejected trades\<close>

lemma executeTrade_insufficient_funds:
  assumes active: "activePortfolioId state = Some a" "a \<noteq> []"
    and found: "getActivePortfolio state = Some portfolio"
    and buy: "tr_type trade = Buy"
    and short: "pf_balance portfolio < tr_quantity trade * tr_price trade"
  shows "executeTrade state trade env = (Rejected InsufficientFunds, state)
       \<and> \<not> succeeded (fst (executeTrade state trade env))
       \<and> getActivePortfolio (snd (executeTrade state trade env)) = Some portfolio"
proof -
  from found active obtain i where
    i: "findIndex (\<lambda>p. pf_id p = a) (portfolios state) = Some i"
    and p: "portfolio = portfolios state ! i"
    by (auto simp: getActivePortfolio_def find_findIndex)
  from short have "executeBuy portfolio a trade env = (Rejected InsufficientFunds, portfolio)"
    by (simp add: executeBuy_def)
  with active i p buy
  have "executeTrade state trade env = (Rejected InsufficientFunds, state)"
    by (simp add: executeTrade_def)
  with found show ?thesis by simp
qed

subsection \<open>Deleting portfolios\<close>

lemma initialized_active:
  "initialized s \<Longrightarrow> \<exists>p \<in> set (portfolios s). activePortfolioId s = Some (pf_id p)"
  by (simp add: initialized_def list_ex_iff)

lemma createPortfolio_initial:
  "initialized (snd (createPortfolio initialPortfolioState name tail now))"
  by (simp add: initialized_def createPortfolio_def initialPortfolioState_def Let_def)

lemma createPortfolio_initialized:
  "initialized s \<Longrightarrow> initialized (snd (createPortfolio s name tail now))"
  by (auto simp: initialized_def createPortfolio_def Let_def list_ex_iff list_all_iff)

lemma setActivePortfolio_initialized:
  "initialized s \<Longrightarrow> initialized (setActivePortfolio s pid)"
  by (auto simp: initialized_def setActivePortfolio_def list_ex_iff list_all_iff)

lemma executeTrade_ids:
  "map pf_id (portfolios (snd (executeTrade s t e))) = map pf_id (portfolios s)
   \<and> activePortfolioId (snd (executeTrade s t e)) = activePortfolioId s"
proof (cases "fst (executeTrade s t e)")
  case (Rejected f)
  then have "snd (executeTrade s t e) = s"
    by (auto simp: executeTrade_def Let_def split: option.splits if_splits TradeOutcome.splits)
  then show ?thesis by simp
next
  case Executed
  then obtain a i p' where
    i: "findIndex (\<lambda>p. pf_id p = a) (portfolios s) = Some i" and
    br: "(case tr_type t of Buy \<Rightarrow> executeBuy (portfolios s ! i) a t e
      | Sell \<Rightarrow> executeSell (portfolios s ! i) a t e) = (Executed, p')" and
    s': "snd (executeTrade s t e) = s \<lparr> portfolios := (portfolios s)[i := p'] \<rparr>"
    by (rule executeTrade_Executed)
  from br have "pf_id p' = pf_id (portfolios s ! i)"
    by (cases "tr_type t")
       (auto simp: executeBuy_def executeSell_def Let_def split: option.splits if_splits)
  moreover from findIndex_Some[OF i] have "i < length (portfolios s)" by simp
  ultimately have "map pf_id ((portfolios s)[i := p']) = map pf_id (portfolios s)"
    by (simp add: map_update list_update_same_conv)
  then show ?thesis by (simp add: s')
qed

lemma executeTrade_initialized:
  "initialized s \<Longrightarrow> initialized (snd (executeTrade s t e))"
proof -
  assume init: "initialized s"
  have ids: "map pf_id (portfolios (snd (executeTrade s t e))) = map pf_id (portfolios s)"
    and act: "activePortfolioId (snd (executeTrade s t e)) = activePortfolioId s"
    using executeTrade_ids[of s t e] by simp_all
  have char: "initialized x \<longleftrightarrow>
          (\<exists>i \<in> set (map pf_id (portfolios x)). activePortfolioId x = Some i)
          \<and> (\<forall>i \<in> set (map pf_id (portfolios x)). i \<noteq> [])" for x
    by (auto simp: initialized_def list_ex_iff list_all_iff)
  from init show ?thesis
    unfolding char ids act .
qed

text \<open>
  C9. On an initialised store, \<open>deletePortfolio\<close> leaves an initialised store with at
  least one portfolio: the active id names a portfolio that exists. When every portfolio
  carried the deleted id, the store holds exactly one new portfolio, named
  \<open>Default Portfolio\<close>, with the starting balance, no positions and no transactions, and it
  is active. When portfolios remain, they are kept in order, and the active id moves to
  the first of them if the deleted portfolio was active and stays otherwise.
\<close>

theorem deletePortfolio_keeps_active:
  assumes init: "initialized state"
  shows "initialized (deletePortfolio state portfolioId tail now)
       \<and> portfolios (deletePortfolio state portfolioId tail now) \<noteq> []
       \<and> ((\<forall>p \<in> set (portfolios state). pf_id p = portfolioId) \<longrightarrow>
            deletePortfolio state portfolioId tail now =
              \<lparr> portfolios =
                  [\<lparr> pf_id = ''portfolio_'' @ tail, pf_name = ''Default Portfolio'',
                     pf_balance = INITIAL_PORTFOLIO_BALANCE,
                     pf_currentBalance = INITIAL_PORTFOLIO_BALANCE,
                     pf_initialBalance = INITIAL_PORTFOLIO_BALANCE,
                     pf_positions = [], pf_transactions = [], pf_createdAt = now \<rparr>],
                activePortfolioId = Some (''portfolio_'' @ tail) \<rparr>)
       \<and> (\<forall>r rest. filter (\<lambda>p. pf_id p \<noteq> portfolioId) (portfolios state) = r # rest \<longrightarrow>
            portfolios (deletePortfolio state portfolioId tail now) = r # rest
            \<and> activePortfolioId (deletePortfolio state portfolioId tail now) =
                (if activePortfolioId state = Some portfolioId then Some (pf_id r)
                 else activePortfolioId state))"
proof -
  let ?rem = "filter (\<lambda>p. pf_id p \<noteq> portfolioId) (portfolios state)"
  let ?d = "deletePortfolio state portfolioId tail now"
  from init obtain q where q: "q \<in> set (portfolios state)" "activePortfolioId state = Some (pf_id q)"
    by (auto simp: initialized_def list_ex_iff)
  from init have ne: "\<forall>p \<in> set (portfolios state). pf_id p \<noteq> []"
    by (simp add: initialized_def list_all_iff)
  show ?thesis
  proof (cases ?rem)
    case Nil
    then have all: "\<forall>p \<in> set (portfolios state). pf_id p = portfolioId"
      by (auto simp: filter_empty_conv)
    from Nil have d: "?d = \<lparr> portfolios =
                  [\<lparr> pf_id = ''portfolio_'' @ tail, pf_name = ''Default Portfolio'',
                     pf_balance = 100000, pf_currentBalance = 100000,
                     pf_initialBalance = 100000,
                     pf_positions = [], pf_transactions = [], pf_createdAt = now \<rparr>],
                activePortfolioId = Some (''portfolio_'' @ tail) \<rparr>"
      by (simp add: deletePortfolio_def Let_def)
    show ?thesis
      using Nil by (simp add: d initialized_def INITIAL_PORTFOLIO_BALANCE_def)
  next
    case (Cons r rest)
    then have "r \<in> set ?rem" by simp
    then have rin: "r \<in> set (portfolios state)" "pf_id r \<noteq> portfolioId"
      by simp_all
    with ne have rne: "pf_id r \<noteq> []" by simp
    from Cons rne have ps: "portfolios ?d = r # rest"
      and act: "activePortfolioId ?d =
                (if activePortfolioId state = Some portfolioId then Some (pf_id r)
                 else activePortfolioId state)"
      by (simp_all add: deletePortfolio_def Let_def)
    have notall: "\<not> (\<forall>p \<in> set (portfolios state). pf_id p = portfolioId)"
      using rin by blast
    have ids: "list_all (\<lambda>p. pf_id p \<noteq> []) (r # rest)"
      using ne Cons[symmetric] by (simp add: list_all_iff)
    have ex: "list_ex (\<lambda>p. activePortfolioId ?d = Some (pf_id p)) (r # rest)"
    proof (cases "activePortfolioId state = Some portfolioId")
      case True
      with act show ?thesis by simp
    next
      case False
      with q have "pf_id q \<noteq> portfolioId" by auto
      with q(1) have "q \<in> set ?rem" by simp
      with Cons have "q \<in> set (r # rest)" by simp
      with False act q(2) show ?thesis by (auto simp: list_ex_iff)
    qed
    have c1: "initialized ?d"
      unfolding initialized_def ps using ids ex by blast
    have c2: "portfolios ?d \<noteq> []" by (simp add: ps)
    have c3: "(\<forall>p \<in> set (portfolios state). pf_id p = portfolioId) \<longrightarrow>
            ?d = \<lparr> portfolios =
                  [\<lparr> pf_id = ''portfolio_'' @ tail, pf_name = ''Default Portfolio'',
                     pf_balance = INITIAL_PORTFOLIO_BALANCE,
                     pf_currentBalance = INITIAL_PORTFOLIO_BALANCE,
                     pf_initialBalance = INITIAL_PORTFOLIO_BALANCE,
                     pf_positions = [], pf_transactions = [], pf_createdAt = now \<rparr>],
                activePortfolioId = Some (''portfolio_'' @ tail) \<rparr>"
      using notall by blast
    have c4: "\<forall>r' rest'. ?rem = r' # rest' \<longrightarrow>
            portfolios ?d = r' # rest'
            \<and> activePortfolioId ?d =
                (if activePortfolioId state = Some portfolioId then Some (pf_id r')
                 else activePortfolioId state)"
      using Cons ps act by simp
    from c1 c2 c3 c4 show ?thesis by blast
  qed
qed

theorem deletePortfolio_keeps_active_witness:
  "deletePortfolio freshStore ''portfolio_1_a'' ''9_z'' 9 =
     \<lparr> portfolios =
         [\<lparr> pf_id = ''portfolio_9_z'', pf_name = ''Default Portfolio'', pf_balance = 100000,
            pf_currentBalance = 100000, pf_initialBalance = 100000,
            pf_positions = [], pf_transactions = [], pf_createdAt = 9 \<rparr>],
       activePortfolioId = Some ''portfolio_9_z'' \<rparr>
   \<and> activePortfolioId twoPortfolios = Some ''portfolio_1_a''
   \<and> map pf_id (portfolios (deletePortfolio twoPortfolios ''portfolio_1_a'' ''9_z'' 9))
       = [''portfolio_2_b'']
   \<and> activePortfolioId (deletePortfolio twoPortfolios ''portfolio_1_a'' ''9_z'' 9)
       = Some ''portfolio_2_b''"
proof -
  have i1: "initialized freshStore"
    by (simp add: initialized_def store_defs)
  have all: "\<forall>p \<in> set (portfolios freshStore). pf_id p = ''portfolio_1_a''"
    by (simp add: store_defs)
  from deletePortfolio_keeps_active[OF i1, of "''portfolio_1_a''" "''9_z''" 9] all
  have one: "deletePortfolio freshStore ''portfolio_1_a'' ''9_z'' 9 =
     \<lparr> portfolios =
         [\<lparr> pf_id = ''portfolio_9_z'', pf_name = ''Default Portfolio'', pf_balance = 100000,
            pf_currentBalance = 100000, pf_initialBalance = 100000,
            pf_positions = [], pf_transactions = [], pf_createdAt = 9 \<rparr>],
       activePortfolioId = Some ''portfolio_9_z'' \<rparr>"
    by (simp add: INITIAL_PORTFOLIO_BALANCE_def)
  have i2: "initialized twoPortfolios"
    by (simp add: initialized_def twoPortfolios_def store_defs)
  have act: "activePortfolioId twoPortfolios = Some ''portfolio_1_a''"
    by (simp add: twoPortfolios_def store_defs)
  let ?second = "\<lparr> pf_id = ''portfolio_2_b'', pf_name = ''Second'', pf_balance = 100000,
            pf_currentBalance = 100000, pf_initialBalance = 100000,
            pf_positions = [], pf_transactions = [], pf_createdAt = 2 \<rparr>"
  have rem: "filter (\<lambda>p. pf_id p \<noteq> ''portfolio_1_a'') (portfolios twoPortfolios) = ?second # []"
    by (simp add: twoPortfolios_def store_defs)
  from deletePortfolio_keeps_active[OF i2, of "''portfolio_1_a''" "''9_z''" 9] rem act
  have two: "portfolios (deletePortfolio twoPortfolios ''portfolio_1_a'' ''9_z'' 9) = [?second]
     \<and> activePortfolioId (deletePortfolio twoPortfolios ''portfolio_1_a'' ''9_z'' 9)
         = Some ''portfolio_2_b''"
    by simp
  from one act two show ?thesis by simp
qed

subsection \<open>Fees\<close>

text \<open>The equations that evaluate the position store on concrete inputs.\<close>

lemmas position_store_defs = ps_executeTrade_def ps_addTransaction_def ps_addPosition_def
  ps_updatePosition_def ps_closePosition_def applyUpdates_def generateId_def
  calculatePositionPnL_def DEFAULT_TRADING_FEE_PERCENT_def initialPositionStore_def
  storeHolding_def samplePosition_def mkStoreEnv_def Let_def

lemma ps_executeTrade_succeeds:
  "res_success (fst (ps_executeTrade st pid symbol side q price ty env))"
  by (simp add: ps_executeTrade_def Let_def split: option.splits)

lemma ps_executeTrade_records:
  "\<exists>rest. st_transactions (snd (ps_executeTrade st pid symbol side q price ty env)) =
     st_transactions st @
       \<lparr> tt_id = ''tx_'' @ se_txTail env, tt_portfolioId = pid, tt_symbol = symbol,
         tt_side = side, tt_quantity = q, tt_price = price,
         tt_fee = q * price / 1000,
         tt_total = (if side = Buy then q * price + q * price / 1000
                     else q * price - q * price / 1000),
         tt_timestamp = se_txTime env, tt_orderId = None \<rparr> # rest"
  by (simp add: ps_executeTrade_def ps_addTransaction_def ps_addPosition_def
        ps_updatePosition_def ps_closePosition_def generateId_def
        DEFAULT_TRADING_FEE_PERCENT_def Let_def split: option.splits)

text \<open>
  C8 (as worded). The configured fee rate is not 0: \<open>DEFAULT_TRADING_FEE_PERCENT\<close> is
  0.001, and the position store's \<open>executeTrade\<close> records it. Buying 1 BTC at 50000
  records the fee 50 and the total 50050.
\<close>

theorem fee_as_worded_fails:
  "DEFAULT_TRADING_FEE_PERCENT \<noteq> 0
   \<and> res_success (fst (ps_executeTrade initialPositionStore ''test-portfolio-1'' ''BTC'' Buy 1 50000
                         Market (mkStoreEnv ''2_a'' 2)))
   \<and> map (\<lambda>t. (tt_fee t, tt_total t))
         (st_transactions (snd (ps_executeTrade initialPositionStore ''test-portfolio-1'' ''BTC''
                                  Buy 1 50000 Market (mkStoreEnv ''2_a'' 2))))
       = [(50, 50050)]"
  by (simp add: position_store_defs)

text \<open>
  C8 (amended). The configured fee rate is 0.001. Every \<open>executeTrade\<close> of the position
  store succeeds and records a transaction whose fee is \<open>quantity \<times> price \<times> 0.001\<close> and
  whose total is \<open>quantity \<times> price\<close> plus the fee for a buy, minus the fee for a sell.
  The portfolio store applies no fee: a successful buy debits exactly
  \<open>quantity \<times> price\<close> from the cash of the active portfolio and a successful sell
  credits exactly \<open>quantity \<times> price\<close>.
\<close>

theorem trading_fee:
  "DEFAULT_TRADING_FEE_PERCENT = 1 / 1000
   \<and> res_success (fst (ps_executeTrade st pid symbol side quantity price otype senv))
   \<and> (\<exists>rest. st_transactions (snd (ps_executeTrade st pid symbol side quantity price otype senv)) =
         st_transactions st @
           \<lparr> tt_id = ''tx_'' @ se_txTail senv, tt_portfolioId = pid, tt_symbol = symbol,
             tt_side = side, tt_quantity = quantity, tt_price = price,
             tt_fee = quantity * price / 1000,
             tt_total = (if side = Buy then quantity * price + quantity * price / 1000
                         else quantity * price - quantity * price / 1000),
             tt_timestamp = se_txTime senv, tt_orderId = None \<rparr> # rest)
   \<and> (getActivePortfolio state = Some portfolio
        \<and> fst (executeTrade state trade env) = Executed \<longrightarrow>
          (\<exists>portfolio'. getActivePortfolio (snd (executeTrade state trade env)) = Some portfolio'
             \<and> pf_balance portfolio' =
                 (case tr_type trade of
                    Buy \<Rightarrow> pf_balance portfolio - tr_quantity trade * tr_price trade
                  | Sell \<Rightarrow> pf_balance portfolio + tr_quantity trade * tr_price trade)))"
proof -
  have cash: "\<exists>portfolio'. getActivePortfolio (snd (executeTrade state trade env)) = Some portfolio'
             \<and> pf_balance portfolio' =
                 (case tr_type trade of
                    Buy \<Rightarrow> pf_balance portfolio - tr_quantity trade * tr_price trade
                  | Sell \<Rightarrow> pf_balance portfolio + tr_quantity trade * tr_price trade)"
    if act: "getActivePortfolio state = Some portfolio"
      and ok: "fst (executeTrade state trade env) = Executed"
  proof -
    from ok obtain a where a: "activePortfolioId state = Some a" "a \<noteq> []"
      by (auto simp: executeTrade_def split: option.splits if_splits)
    let ?res = "(case tr_type trade of Buy \<Rightarrow> executeBuy portfolio a trade env
                 | Sell \<Rightarrow> executeSell portfolio a trade env)"
    from executeTrade_on_active(1)[OF a act, of trade env] ok
    have ex: "fst ?res = Executed" by simp
    from executeTrade_on_active(2)[OF a act ok]
    have p': "getActivePortfolio (snd (executeTrade state trade env)) = Some (snd ?res)" .
    have "pf_balance (snd ?res) =
                 (case tr_type trade of
                    Buy \<Rightarrow> pf_balance portfolio - tr_quantity trade * tr_price trade
                  | Sell \<Rightarrow> pf_balance portfolio + tr_quantity trade * tr_price trade)"
      using ex
      by (cases "tr_type trade")
         (auto simp: executeBuy_def executeSell_def Let_def split: option.splits if_splits)
    with p' show ?thesis by simp
  qed
  from cash ps_executeTrade_succeeds[of st pid symbol side quantity price otype senv]
    ps_executeTrade_records[of st pid symbol side quantity price otype senv]
  show ?thesis by (simp add: DEFAULT_TRADING_FEE_PERCENT_def)
qed

theorem trading_fee_witness:
  "map (\<lambda>t. (tt_fee t, tt_total t))
     (st_transactions (snd (ps_executeTrade (storeHolding Buy 2 50000) ''test-portfolio-1'' ''BTC''
                              Sell 1 55000 Market (mkStoreEnv ''2_a'' 2))))
     = [(55, 54945)]
   \<and> map_option pf_balance
        (getActivePortfolio (snd (executeTrade freshStore (mkTrade ''BTC'' Buy 1 50000)
                                     (mkEnv ''2_a'' 2))))
       = Some 50000"
proof -
  let ?st = "storeHolding Buy 2 50000"
  let ?p0 = "\<lparr> pf_id = ''portfolio_1_a'', pf_name = ''Main Portfolio'', pf_balance = 100000,
            pf_currentBalance = 100000, pf_initialBalance = 100000, pf_positions = [],
            pf_transactions = [], pf_createdAt = 1 \<rparr>"
  let ?t = "mkTrade ''BTC'' Buy 1 50000"
  have a: "getActivePortfolio freshStore = Some ?p0"
    by (simp add: store_defs)
  have ok: "fst (executeTrade freshStore ?t (mkEnv ''2_a'' 2)) = Executed"
    by (simp add: store_defs)
  note inst = trading_fee[of ?st "''test-portfolio-1''" "''BTC''" Sell 1 55000 Market
        "mkStoreEnv ''2_a'' 2" freshStore ?p0 ?t "mkEnv ''2_a'' 2"]
  from inst a ok have cash: "map_option pf_balance
        (getActivePortfolio (snd (executeTrade freshStore ?t (mkEnv ''2_a'' 2)))) = Some 50000"
    by (auto simp: mkTrade_def)
  have len: "length (st_transactions (snd (ps_executeTrade ?st ''test-portfolio-1'' ''BTC''
                              Sell 1 55000 Market (mkStoreEnv ''2_a'' 2)))) = 1"
    by (simp add: position_store_defs)
  from inst obtain rest where
    "st_transactions (snd (ps_executeTrade ?st ''test-portfolio-1'' ''BTC''
                              Sell 1 55000 Market (mkStoreEnv ''2_a'' 2))) =
     st_transactions ?st @
           \<lparr> tt_id = ''tx_'' @ se_txTail (mkStoreEnv ''2_a'' 2), tt_portfolioId = ''test-portfolio-1'', tt_symbol = ''BTC'',
             tt_side = Sell, tt_quantity = 1, tt_price = 55000,
             tt_fee = 1 * 55000 / 1000,
             tt_total = (if Sell = Buy then 1 * 55000 + 1 * 55000 / 1000
                         else 1 * 55000 - 1 * 55000 / 1000),
             tt_timestamp = se_txTime (mkStoreEnv ''2_a'' 2), tt_orderId = None \<rparr> # rest"
    by blast
  with len have "map (\<lambda>t. (tt_fee t, tt_total t))
     (st_transactions (snd (ps_executeTrade ?st ''test-portfolio-1'' ''BTC''
                              Sell 1 55000 Market (mkStoreEnv ''2_a'' 2)))) = [(55, 54945)]"
    by (simp add: storeHolding_def)
  with cash show ?thesis by simp
qed

subsection \<open>Branches of the position store's trade execution\<close>

lemma ps_merge:
  assumes "find (\<lambda>p. tp_portfolioId p = pid \<and> tp_symbol p = symbol) (st_positions st) = Some ex"
    and "tp_side ex = side"
  shows "st_positions (snd (ps_executeTrade st pid symbol side q price ty env)) =
           map (\<lambda>p. if tp_id p = tp_id ex
                     then p \<lparr> tp_quantity := tp_quantity ex + q,
                              tp_entryPrice :=
                                (tp_entryPrice ex * tp_quantity ex + price * q)
                                  / (tp_quantity ex + q),
                              tp_currentPrice := price,
                              tp_updatedAt := se_updateTime env \<rparr>
                     else p)
               (st_positions st)"
  using assms
  by (simp add: ps_executeTrade_def ps_addTransaction_def ps_updatePosition_def
        applyUpdates_def Let_def)


lemma ps_open:
  assumes "find (\<lambda>p. tp_portfolioId p = pid \<and> tp_symbol p = symbol) (st_positions st) = None"
  shows "st_positions (snd (ps_executeTrade st pid symbol side q price ty env)) =
           st_positions st @
             [\<lparr> tp_id = ''pos_'' @ se_posTail env, tp_portfolioId = pid, tp_symbol = symbol,
                tp_side = side, tp_quantity = q, tp_entryPrice = price,
                tp_currentPrice = price, tp_unrealizedPnL = None,
                tp_unrealizedPnLPercent = 0,
                tp_createdAt = se_posTime env, tp_updatedAt = se_posTime env \<rparr>]"
  using assms
  by (simp add: ps_executeTrade_def ps_addTransaction_def ps_addPosition_def
        calculatePositionPnL_def generateId_def Let_def)

lemma ps_flip:
  assumes f: "find (\<lambda>p. tp_portfolioId p = pid \<and> tp_symbol p = symbol) (st_positions st) = Some ex"
    and "tp_side ex \<noteq> side"
    and "tp_quantity ex < q"
  shows "st_positions (snd (ps_executeTrade st pid symbol side q price ty env)) =
           filter (\<lambda>p. tp_id p \<noteq> tp_id ex) (st_positions st) @
             [\<lparr> tp_id = ''pos_'' @ se_posTail env, tp_portfolioId = pid, tp_symbol = symbol,
                tp_side = side, tp_quantity = q - tp_quantity ex, tp_entryPrice = price,
                tp_currentPrice = price, tp_unrealizedPnL = Some 0,
                tp_unrealizedPnLPercent = 0,
                tp_createdAt = se_posTime env, tp_updatedAt = se_posTime env \<rparr>]"
proof -
  from f have "ex \<in> set (st_positions st)"
    by (auto simp: find_Some_iff)
  then have "find (\<lambda>p. tp_id p = tp_id ex) (st_positions st) \<noteq> None"
    by (auto simp: find_None_iff)
  then obtain c where c: "find (\<lambda>p. tp_id p = tp_id ex) (st_positions st) = Some c"
    by blast
  from assms c show ?thesis
    by (simp add: ps_executeTrade_def ps_addTransaction_def ps_addPosition_def
          ps_closePosition_def calculatePositionPnL_def generateId_def Let_def)
qed

lemma ps_close:
  assumes f: "find (\<lambda>p. tp_portfolioId p = pid \<and> tp_symbol p = symbol) (st_positions st) = Some ex"
    and "tp_side ex \<noteq> side"
    and "tp_quantity ex = q"
  shows "st_positions (snd (ps_executeTrade st pid symbol side q price ty env)) =
           filter (\<lambda>p. tp_id p \<noteq> tp_id ex) (st_positions st)"
    and "length (st_transactions (snd (ps_executeTrade st pid symbol side q price ty env))) =
           length (st_transactions st) + 2"
proof -
  from f have "ex \<in> set (st_positions st)"
    by (auto simp: find_Some_iff)
  then have "find (\<lambda>p. tp_id p = tp_id ex) (st_positions st) \<noteq> None"
    by (auto simp: find_None_iff)
  then obtain c where c: "find (\<lambda>p. tp_id p = tp_id ex) (st_positions st) = Some c"
    by blast
  from assms c show "st_positions (snd (ps_executeTrade st pid symbol side q price ty env)) =
           filter (\<lambda>p. tp_id p \<noteq> tp_id ex) (st_positions st)"
    by (simp add: ps_executeTrade_def ps_addTransaction_def ps_addPosition_def
          ps_closePosition_def calculatePositionPnL_def generateId_def Let_def)
  from assms c show "length (st_transactions (snd (ps_executeTrade st pid symbol side q price ty env))) =
           length (st_transactions st) + 2"
    by (simp add: ps_executeTrade_def ps_addTransaction_def ps_addPosition_def
          ps_closePosition_def calculatePositionPnL_def generateId_def Let_def)
qed

subsection \<open>Buys beyond the cash balance\<close>

text \<open>
  C2 (as worded). The position store's \<open>executeTrade\<close> reads no cash balance and has no
  funds check. The portfolio \<open>portfolio_1_a\<close> holds 100000 in cash; a buy of 3 BTC at
  50000 for it, costing 150000 before the fee, succeeds there, opens a position and
  records a transaction.
\<close>

theorem buy_beyond_cash_as_worded_fails:
  "map_option pf_id (getActivePortfolio freshStore) = Some ''portfolio_1_a''
   \<and> pf_balance (the (getActivePortfolio freshStore)) < 3 * 50000
   \<and> res_success (fst (ps_executeTrade initialPositionStore ''portfolio_1_a'' ''BTC'' Buy 3 50000
                         Market (mkStoreEnv ''2_a'' 2)))
   \<and> map (\<lambda>p. (tp_portfolioId p, tp_symbol p, tp_side p, tp_quantity p, tp_entryPrice p))
         (st_positions (snd (ps_executeTrade initialPositionStore ''portfolio_1_a'' ''BTC''
                               Buy 3 50000 Market (mkStoreEnv ''2_a'' 2))))
       = [(''portfolio_1_a'', ''BTC'', Buy, 3, 50000)]
   \<and> map (\<lambda>t. (tt_portfolioId t, tt_side t, tt_quantity t, tt_price t, tt_total t))
         (st_transactions (snd (ps_executeTrade initialPositionStore ''portfolio_1_a'' ''BTC''
                                  Buy 3 50000 Market (mkStoreEnv ''2_a'' 2))))
       = [(''portfolio_1_a'', Buy, 3, 50000, 150150)]"
  by (simp add: store_defs position_store_defs)

text \<open>
  C2 (amended). In the portfolio store, a buy whose cost \<open>quantity \<times> price\<close> exceeds the
  cash of the active portfolio is rejected at the insufficient-funds return: the caller
  sees the bare \<open>false\<close>, and the store, with that portfolio's cash, positions and
  transactions, is exactly the one before the call. No fee enters the comparison, and no
  sign condition on quantity or price is needed. The position store performs no funds
  check: every buy succeeds and records a transaction with its fee, and with no position
  of the portfolio for the symbol it opens one.
\<close>

theorem funds_check_by_store:
  "(activePortfolioId state = Some a \<and> a \<noteq> []
      \<and> getActivePortfolio state = Some portfolio
      \<and> tr_type trade = Buy
      \<and> pf_balance portfolio < tr_quantity trade * tr_price trade
    \<longrightarrow> executeTrade state trade env = (Rejected InsufficientFunds, state)
        \<and> \<not> succeeded (fst (executeTrade state trade env))
        \<and> getActivePortfolio (snd (executeTrade state trade env)) = Some portfolio)
   \<and> res_success (fst (ps_executeTrade st pid symbol Buy quantity price otype senv))
   \<and> (\<exists>rest. st_transactions (snd (ps_executeTrade st pid symbol Buy quantity price otype senv)) =
         st_transactions st @
           \<lparr> tt_id = ''tx_'' @ se_txTail senv, tt_portfolioId = pid, tt_symbol = symbol,
             tt_side = Buy, tt_quantity = quantity, tt_price = price,
             tt_fee = quantity * price / 1000,
             tt_total = quantity * price + quantity * price / 1000,
             tt_timestamp = se_txTime senv, tt_orderId = None \<rparr> # rest)
   \<and> (find (\<lambda>p. tp_portfolioId p = pid \<and> tp_symbol p = symbol) (st_positions st) = None
      \<longrightarrow> st_positions (snd (ps_executeTrade st pid symbol Buy quantity price otype senv)) =
            st_positions st @
              [\<lparr> tp_id = ''pos_'' @ se_posTail senv, tp_portfolioId = pid,
                 tp_symbol = symbol, tp_side = Buy, tp_quantity = quantity,
                 tp_entryPrice = price, tp_currentPrice = price, tp_unrealizedPnL = None,
                 tp_unrealizedPnLPercent = 0, tp_createdAt = se_posTime senv,
                 tp_updatedAt = se_posTime senv \<rparr>])"
proof -
  have store: "executeTrade state trade env = (Rejected InsufficientFunds, state)
        \<and> \<not> succeeded (fst (executeTrade state trade env))
        \<and> getActivePortfolio (snd (executeTrade state trade env)) = Some portfolio"
    if "activePortfolioId state = Some a" "a \<noteq> []"
      "getActivePortfolio state = Some portfolio" "tr_type trade = Buy"
      "pf_balance portfolio < tr_quantity trade * tr_price trade"
    using that by (rule executeTrade_insufficient_funds)
  from ps_executeTrade_records[of st pid symbol Buy quantity price otype senv]
  have rec: "\<exists>rest. st_transactions (snd (ps_executeTrade st pid symbol Buy quantity price otype senv)) =
         st_transactions st @
           \<lparr> tt_id = ''tx_'' @ se_txTail senv, tt_portfolioId = pid, tt_symbol = symbol,
             tt_side = Buy, tt_quantity = quantity, tt_price = price,
             tt_fee = quantity * price / 1000,
             tt_total = quantity * price + quantity * price / 1000,
             tt_timestamp = se_txTime senv, tt_orderId = None \<rparr> # rest"
    by simp
  from store rec ps_open[of pid symbol st Buy quantity price otype senv]
    ps_executeTrade_succeeds[of st pid symbol Buy quantity price otype senv]
  show ?thesis by blast
qed

theorem funds_check_by_store_witness:
  "executeTrade
     \<lparr> portfolios = [sampleAfterBuy], activePortfolioId = Some ''portfolio_1_a'' \<rparr>
     (mkTrade ''BTC'' Buy 1 52000) (mkEnv ''3_a'' 3)
   = (Rejected InsufficientFunds,
      \<lparr> portfolios = [sampleAfterBuy], activePortfolioId = Some ''portfolio_1_a'' \<rparr>)
   \<and> res_success (fst (ps_executeTrade initialPositionStore ''test-portfolio-1'' ''ETH'' Buy 40
                         3000 Market (mkStoreEnv ''2_a'' 2)))
   \<and> map (\<lambda>p. (tp_symbol p, tp_side p, tp_quantity p, tp_entryPrice p))
         (st_positions (snd (ps_executeTrade initialPositionStore ''test-portfolio-1'' ''ETH''
                               Buy 40 3000 Market (mkStoreEnv ''2_a'' 2))))
       = [(''ETH'', Buy, 40, 3000)]"
proof -
  let ?s = "\<lparr> portfolios = [sampleAfterBuy], activePortfolioId = Some ''portfolio_1_a'' \<rparr>"
  let ?t = "mkTrade ''BTC'' Buy 1 52000"
  have h1: "activePortfolioId ?s = Some ''portfolio_1_a''" "''portfolio_1_a'' \<noteq> []"
      "getActivePortfolio ?s = Some sampleAfterBuy" "tr_type ?t = Buy"
      "pf_balance sampleAfterBuy < tr_quantity ?t * tr_price ?t"
    by (simp_all add: getActivePortfolio_def mkTrade_def sampleAfterBuy_def)
  have h2: "find (\<lambda>p. tp_portfolioId p = ''test-portfolio-1'' \<and> tp_symbol p = ''ETH'')
              (st_positions initialPositionStore) = None"
    by (simp add: initialPositionStore_def)
  note inst = funds_check_by_store[where state = ?s and a = "''portfolio_1_a''"
      and portfolio = sampleAfterBuy and trade = ?t and env = "mkEnv ''3_a'' 3"
      and st = initialPositionStore and pid = "''test-portfolio-1''" and symbol = "''ETH''"
      and quantity = 40 and price = 3000 and otype = Market
      and senv = "mkStoreEnv ''2_a'' 2"]
  from inst h1 have a: "executeTrade ?s ?t (mkEnv ''3_a'' 3) = (Rejected InsufficientFunds, ?s)"
    by blast
  from inst have b: "res_success (fst (ps_executeTrade initialPositionStore ''test-portfolio-1''
                         ''ETH'' Buy 40 3000 Market (mkStoreEnv ''2_a'' 2)))"
    by blast
  from inst h2 have c: "map (\<lambda>p. (tp_symbol p, tp_side p, tp_quantity p, tp_entryPrice p))
         (st_positions (snd (ps_executeTrade initialPositionStore ''test-portfolio-1'' ''ETH''
                               Buy 40 3000 Market (mkStoreEnv ''2_a'' 2))))
       = [(''ETH'', Buy, 40, 3000)]"
    by (simp add: initialPositionStore_def)
  from a b c show ?thesis by simp
qed

subsection \<open>Sells that exceed the holdings\<close>

text \<open>
  C3 (as worded). The position store's \<open>executeTrade\<close> does not reject a sell: with no
  position for the symbol, selling 1 BTC at 100 succeeds and opens a sell-side position;
  holding 1 BTC long, selling 3 at 55000 succeeds, closes the long position and opens a
  sell-side position of 2.
\<close>

theorem sell_without_holding_as_worded_fails:
  "ps_getPositionBySymbol initialPositionStore ''test-portfolio-1'' ''BTC'' = None
   \<and> res_success (fst (ps_executeTrade initialPositionStore ''test-portfolio-1'' ''BTC'' Sell 1 100
                         Market (mkStoreEnv ''2_a'' 2)))
   \<and> map (\<lambda>p. (tp_symbol p, tp_side p, tp_quantity p, tp_entryPrice p))
         (st_positions (snd (ps_executeTrade initialPositionStore ''test-portfolio-1'' ''BTC''
                               Sell 1 100 Market (mkStoreEnv ''2_a'' 2))))
       = [(''BTC'', Sell, 1, 100)]
   \<and> res_success (fst (ps_executeTrade (storeHolding Buy 1 50000) ''test-portfolio-1'' ''BTC''
                         Sell 3 55000 Market (mkStoreEnv ''2_a'' 2)))
   \<and> map (\<lambda>p. (tp_symbol p, tp_side p, tp_quantity p, tp_entryPrice p))
         (st_positions (snd (ps_executeTrade (storeHolding Buy 1 50000) ''test-portfolio-1''
                               ''BTC'' Sell 3 55000 Market (mkStoreEnv ''2_a'' 2))))
       = [(''BTC'', Sell, 2, 55000)]"
  by (simp add: position_store_defs ps_getPositionBySymbol_def ps_getPositionsByPortfolio_def)

text \<open>
  C3 (amended). In the portfolio store, a sell on an active portfolio with no position
  for the symbol is rejected at the no-position return, and a sell of more than the held
  position's quantity at the insufficient-quantity return; the caller sees \<open>false\<close> and the
  store, with the portfolio's cash, positions and transactions, is the one before the
  call. The position store rejects neither: with no position of the portfolio for the
  symbol a trade opens a position on its own side, and a trade larger than a held
  position of the opposite side closes that position and opens one on the trade's side
  for the excess.
\<close>

theorem sell_rejections:
  "(activePortfolioId state = Some a \<and> a \<noteq> []
      \<and> getActivePortfolio state = Some portfolio
      \<and> tr_type trade = Sell
    \<longrightarrow> (list_all (\<lambda>p. pos_symbol p \<noteq> tr_symbol trade) (pf_positions portfolio)
           \<longrightarrow> executeTrade state trade env = (Rejected NoPosition, state))
        \<and> (\<forall>j. findIndex (\<lambda>p. pos_symbol p = tr_symbol trade) (pf_positions portfolio) = Some j
                 \<and> pos_quantity (pf_positions portfolio ! j) < tr_quantity trade
               \<longrightarrow> executeTrade state trade env = (Rejected InsufficientQuantity, state)))
   \<and> (find (\<lambda>p. tp_portfolioId p = pid \<and> tp_symbol p = symbol) (st_positions st) = None
      \<longrightarrow> res_success (fst (ps_executeTrade st pid symbol side quantity price otype senv))
          \<and> st_positions (snd (ps_executeTrade st pid symbol side quantity price otype senv)) =
              st_positions st @
                [\<lparr> tp_id = ''pos_'' @ se_posTail senv, tp_portfolioId = pid,
                   tp_symbol = symbol, tp_side = side, tp_quantity = quantity,
                   tp_entryPrice = price, tp_currentPrice = price, tp_unrealizedPnL = None,
                   tp_unrealizedPnLPercent = 0, tp_createdAt = se_posTime senv,
                   tp_updatedAt = se_posTime senv \<rparr>])
   \<and> (find (\<lambda>p. tp_portfolioId p = pid \<and> tp_symbol p = symbol) (st_positions st) = Some held
        \<and> tp_side held \<noteq> side
        \<and> tp_quantity held < quantity
      \<longrightarrow> res_success (fst (ps_executeTrade st pid symbol side quantity price otype senv))
          \<and> st_positions (snd (ps_executeTrade st pid symbol side quantity price otype senv)) =
              filter (\<lambda>p. tp_id p \<noteq> tp_id held) (st_positions st) @
                [\<lparr> tp_id = ''pos_'' @ se_posTail senv, tp_portfolioId = pid,
                   tp_symbol = symbol, tp_side = side,
                   tp_quantity = quantity - tp_quantity held, tp_entryPrice = price,
                   tp_currentPrice = price, tp_unrealizedPnL = Some 0,
                   tp_unrealizedPnLPercent = 0, tp_createdAt = se_posTime senv,
                   tp_updatedAt = se_posTime senv \<rparr>])"
proof -
  have none: "executeTrade state trade env = (Rejected NoPosition, state)"
    if a: "activePortfolioId state = Some a" "a \<noteq> []"
      and p: "getActivePortfolio state = Some portfolio"
      and b: "tr_type trade = Sell"
      and n: "list_all (\<lambda>p. pos_symbol p \<noteq> tr_symbol trade) (pf_positions portfolio)"
  proof -
    from n have "findIndex (\<lambda>p. pos_symbol p = tr_symbol trade) (pf_positions portfolio) = None"
      by (simp add: findIndex_None list_all_iff)
    then have "fst (executeSell portfolio a trade env) = Rejected NoPosition"
      by (simp add: executeSell_def)
    with executeTrade_on_active(1)[OF a p, of trade env] b
    have r: "fst (executeTrade state trade env) = Rejected NoPosition" by simp
    with executeTrade_on_active(3)[OF a p, of trade env]
    have "snd (executeTrade state trade env) = state" by blast
    with r show ?thesis by (metis prod.collapse)
  qed
  have few: "executeTrade state trade env = (Rejected InsufficientQuantity, state)"
    if a: "activePortfolioId state = Some a" "a \<noteq> []"
      and p: "getActivePortfolio state = Some portfolio"
      and b: "tr_type trade = Sell"
      and j: "findIndex (\<lambda>p. pos_symbol p = tr_symbol trade) (pf_positions portfolio) = Some j"
      and q: "pos_quantity (pf_positions portfolio ! j) < tr_quantity trade"
    for j
  proof -
    from j q have "fst (executeSell portfolio a trade env) = Rejected InsufficientQuantity"
      by (simp add: executeSell_def Let_def)
    with executeTrade_on_active(1)[OF a p, of trade env] b
    have r: "fst (executeTrade state trade env) = Rejected InsufficientQuantity" by simp
    with executeTrade_on_active(3)[OF a p, of trade env]
    have "snd (executeTrade state trade env) = state" by blast
    with r show ?thesis by (metis prod.collapse)
  qed
  from none few
    ps_open[of pid symbol st side quantity price otype senv]
    ps_flip[of pid symbol st held side quantity price otype senv]
    ps_executeTrade_succeeds[of st pid symbol side quantity price otype senv]
  show ?thesis by blast
qed

theorem sell_rejections_witness:
  "executeTrade freshStore (mkTrade ''BTC'' Sell 1 55000) (mkEnv ''2_a'' 2)
     = (Rejected NoPosition, freshStore)
   \<and> executeTrade \<lparr> portfolios = [sampleAfterBuy], activePortfolioId = Some ''portfolio_1_a'' \<rparr>
        (mkTrade ''BTC'' Sell 2 55000) (mkEnv ''3_a'' 3)
     = (Rejected InsufficientQuantity,
        \<lparr> portfolios = [sampleAfterBuy], activePortfolioId = Some ''portfolio_1_a'' \<rparr>)
   \<and> map (\<lambda>p. (tp_symbol p, tp_side p, tp_quantity p, tp_entryPrice p))
         (st_positions (snd (ps_executeTrade initialPositionStore ''test-portfolio-1'' ''ETH''
                               Sell 10 3000 Market (mkStoreEnv ''2_a'' 2))))
       = [(''ETH'', Sell, 10, 3000)]
   \<and> map (\<lambda>p. (tp_symbol p, tp_side p, tp_quantity p, tp_entryPrice p))
         (st_positions (snd (ps_executeTrade (storeHolding Buy 2 50000) ''test-portfolio-1''
                               ''BTC'' Sell 5 60000 Market (mkStoreEnv ''2_a'' 2))))
       = [(''BTC'', Sell, 3, 60000)]"
proof -
  let ?p0 = "\<lparr> pf_id = ''portfolio_1_a'', pf_name = ''Main Portfolio'', pf_balance = 100000,
            pf_currentBalance = 100000, pf_initialBalance = 100000, pf_positions = [],
            pf_transactions = [], pf_createdAt = 1 \<rparr>"
  let ?s = "\<lparr> portfolios = [sampleAfterBuy], activePortfolioId = Some ''portfolio_1_a'' \<rparr>"
  let ?t1 = "mkTrade ''BTC'' Sell 1 55000"
  let ?t2 = "mkTrade ''BTC'' Sell 2 55000"
  have n: "''portfolio_1_a'' \<noteq> []" by simp
  have h1: "activePortfolioId freshStore = Some ''portfolio_1_a''"
      "getActivePortfolio freshStore = Some ?p0" "tr_type ?t1 = Sell"
      "list_all (\<lambda>p. pos_symbol p \<noteq> tr_symbol ?t1) (pf_positions ?p0)"
    by (simp_all add: store_defs)
  from sell_rejections[of freshStore "''portfolio_1_a''" ?p0 ?t1 "mkEnv ''2_a'' 2"] n h1
  have a: "executeTrade freshStore ?t1 (mkEnv ''2_a'' 2) = (Rejected NoPosition, freshStore)"
    by blast
  have h2: "activePortfolioId ?s = Some ''portfolio_1_a''"
      "getActivePortfolio ?s = Some sampleAfterBuy" "tr_type ?t2 = Sell"
      "findIndex (\<lambda>p. pos_symbol p = tr_symbol ?t2) (pf_positions sampleAfterBuy) = Some 0"
      "pos_quantity (pf_positions sampleAfterBuy ! 0) < tr_quantity ?t2"
    by (simp_all add: getActivePortfolio_def mkTrade_def sampleAfterBuy_def)
  from sell_rejections[of ?s "''portfolio_1_a''" sampleAfterBuy ?t2 "mkEnv ''3_a'' 3"] n h2
  have b: "executeTrade ?s ?t2 (mkEnv ''3_a'' 3) = (Rejected InsufficientQuantity, ?s)"
    by blast
  have h3: "find (\<lambda>p. tp_portfolioId p = ''test-portfolio-1'' \<and> tp_symbol p = ''ETH'')
              (st_positions initialPositionStore) = None"
    by (simp add: initialPositionStore_def)
  from sell_rejections[where pid = "''test-portfolio-1''" and symbol = "''ETH''"
      and st = initialPositionStore and side = Sell and quantity = 10 and price = 3000
      and otype = Market and senv = "mkStoreEnv ''2_a'' 2"] h3
  have c: "map (\<lambda>p. (tp_symbol p, tp_side p, tp_quantity p, tp_entryPrice p))
         (st_positions (snd (ps_executeTrade initialPositionStore ''test-portfolio-1'' ''ETH''
                               Sell 10 3000 Market (mkStoreEnv ''2_a'' 2))))
       = [(''ETH'', Sell, 10, 3000)]"
    by (simp add: initialPositionStore_def)
  have h4: "find (\<lambda>p. tp_portfolioId p = ''test-portfolio-1'' \<and> tp_symbol p = ''BTC'')
              (st_positions (storeHolding Buy 2 50000)) = Some (samplePosition Buy 2 50000)"
      "tp_side (samplePosition Buy 2 50000) \<noteq> Sell"
      "tp_quantity (samplePosition Buy 2 50000) < 5"
    by (simp_all add: storeHolding_def samplePosition_def)
  from sell_rejections[where pid = "''test-portfolio-1''" and symbol = "''BTC''"
      and st = "storeHolding Buy 2 50000" and held = "samplePosition Buy 2 50000"
      and side = Sell and quantity = 5 and price = 60000 and otype = Market
      and senv = "mkStoreEnv ''2_a'' 2"] h4
  have d: "map (\<lambda>p. (tp_symbol p, tp_side p, tp_quantity p, tp_entryPrice p))
         (st_positions (snd (ps_executeTrade (storeHolding Buy 2 50000) ''test-portfolio-1''
                               ''BTC'' Sell 5 60000 Market (mkStoreEnv ''2_a'' 2))))
       = [(''BTC'', Sell, 3, 60000)]"
    by (simp add: storeHolding_def samplePosition_def)
  from a b c d show ?thesis by simp
qed

subsection \<open>Average-cost merge\<close>

lemma executeBuy_merge:
  assumes "findIndex (\<lambda>p. pos_symbol p = tr_symbol t) (pf_positions p) = Some j"
    and "\<not> pf_balance p < tr_quantity t * tr_price t"
  shows "fst (executeBuy p a t e) = Executed"
    and "pf_positions (snd (executeBuy p a t e)) =
           (pf_positions p)
             [j := (pf_positions p ! j)
                \<lparr> pos_quantity := pos_quantity (pf_positions p ! j) + tr_quantity t,
                  pos_entryPrice :=
                    (pos_quantity (pf_positions p ! j) * pos_entryPrice (pf_positions p ! j)
                       + tr_quantity t * tr_price t)
                      / (pos_quantity (pf_positions p ! j) + tr_quantity t) \<rparr>]"
  using assms by (simp_all add: executeBuy_def Let_def)

text \<open>
  C4. In the portfolio store every position comes from a buy: a buy that the cash covers,
  on a symbol already held, keeps the position list's length and rewrites the held
  position to \<open>newQuantity = oldQuantity + quantity\<close> and
  \<open>newEntryPrice = (oldQuantity \<times> oldEntryPrice + quantity \<times> price) / newQuantity\<close>. In
  the position store a trade on the side of the held position does the same and also sets
  the cached current price and the update time. Buying 1 at 100 and then 1 at 200 yields
  one position of quantity 2 entered at 150.
\<close>

theorem same_side_merge:
  "(activePortfolioId state = Some a \<and> a \<noteq> []
      \<and> getActivePortfolio state = Some portfolio
      \<and> tr_type trade = Buy
      \<and> findIndex (\<lambda>p. pos_symbol p = tr_symbol trade) (pf_positions portfolio) = Some j
      \<and> \<not> pf_balance portfolio < tr_quantity trade * tr_price trade
      \<and> pos_quantity (pf_positions portfolio ! j) + tr_quantity trade \<noteq> 0
    \<longrightarrow> fst (executeTrade state trade env) = Executed
        \<and> (\<exists>portfolio'.
              getActivePortfolio (snd (executeTrade state trade env)) = Some portfolio'
              \<and> pf_positions portfolio' =
                  (pf_positions portfolio)
                    [j := (pf_positions portfolio ! j)
                       \<lparr> pos_quantity :=
                           pos_quantity (pf_positions portfolio ! j) + tr_quantity trade,
                         pos_entryPrice :=
                           (pos_quantity (pf_positions portfolio ! j)
                              * pos_entryPrice (pf_positions portfolio ! j)
                              + tr_quantity trade * tr_price trade)
                             / (pos_quantity (pf_positions portfolio ! j)
                                  + tr_quantity trade) \<rparr>]))
   \<and> (find (\<lambda>p. tp_portfolioId p = pid \<and> tp_symbol p = symbol) (st_positions st) = Some held
        \<and> tp_side held = side
        \<and> tp_quantity held + quantity \<noteq> 0
      \<longrightarrow> res_success (fst (ps_executeTrade st pid symbol side quantity price otype senv))
          \<and> st_positions (snd (ps_executeTrade st pid symbol side quantity price otype senv)) =
              map (\<lambda>p. if tp_id p = tp_id held
                        then p \<lparr> tp_quantity := tp_quantity held + quantity,
                                 tp_entryPrice :=
                                   (tp_entryPrice held * tp_quantity held + price * quantity)
                                     / (tp_quantity held + quantity),
                                 tp_currentPrice := price,
                                 tp_updatedAt := se_updateTime senv \<rparr>
                        else p)
                  (st_positions st))"
proof -
  have store: "fst (executeTrade state trade env) = Executed
        \<and> (\<exists>portfolio'.
              getActivePortfolio (snd (executeTrade state trade env)) = Some portfolio'
              \<and> pf_positions portfolio' =
                  (pf_positions portfolio)
                    [j := (pf_positions portfolio ! j)
                       \<lparr> pos_quantity :=
                           pos_quantity (pf_positions portfolio ! j) + tr_quantity trade,
                         pos_entryPrice :=
                           (pos_quantity (pf_positions portfolio ! j)
                              * pos_entryPrice (pf_positions portfolio ! j)
                              + tr_quantity trade * tr_price trade)
                             / (pos_quantity (pf_positions portfolio ! j)
                                  + tr_quantity trade) \<rparr>])"
    if a: "activePortfolioId state = Some a" "a \<noteq> []"
      and p: "getActivePortfolio state = Some portfolio"
      and b: "tr_type trade = Buy"
      and j: "findIndex (\<lambda>p. pos_symbol p = tr_symbol trade) (pf_positions portfolio) = Some j"
      and c: "\<not> pf_balance portfolio < tr_quantity trade * tr_price trade"
  proof -
    from executeTrade_on_active(1)[OF a p, of trade env] b executeBuy_merge(1)[OF j c]
    have ok: "fst (executeTrade state trade env) = Executed" by simp
    from executeTrade_on_active(2)[OF a p ok] b
    have "getActivePortfolio (snd (executeTrade state trade env)) =
            Some (snd (executeBuy portfolio a trade env))" by simp
    with ok executeBuy_merge(2)[OF j c, of a env] show ?thesis by simp
  qed
  from store ps_merge[of pid symbol st held side quantity price otype senv]
    ps_executeTrade_succeeds[of st pid symbol side quantity price otype senv]
  show ?thesis by blast
qed

theorem same_side_merge_witness:
  "map (\<lambda>p. (pos_symbol p, pos_quantity p, pos_entryPrice p))
     (pf_positions (the (getActivePortfolio
        (snd (executeTrade
                (snd (executeTrade freshStore (mkTrade ''BTC'' Buy 1 100) (mkEnv ''2_a'' 2)))
                (mkTrade ''BTC'' Buy 1 200) (mkEnv ''3_a'' 3))))))
     = [(''BTC'', 2, 150)]
   \<and> map (\<lambda>p. (tp_symbol p, tp_quantity p, tp_entryPrice p))
       (st_positions (snd (ps_executeTrade (storeHolding Buy 1 50000) ''test-portfolio-1'' ''BTC''
                                Buy 1 52000 Market (mkStoreEnv ''2_a'' 2))))
     = [(''BTC'', 2, 51000)]"
proof -
  let ?s1 = "snd (executeTrade freshStore (mkTrade ''BTC'' Buy 1 100) (mkEnv ''2_a'' 2))"
  let ?p1 = "\<lparr> pf_id = ''portfolio_1_a'', pf_name = ''Main Portfolio'', pf_balance = 99900,
              pf_currentBalance = 99900, pf_initialBalance = 100000,
              pf_positions = [\<lparr> pos_id = ''pos_2_a'', pos_symbol = ''BTC'', pos_quantity = 1,
                                pos_entryPrice = 100, pos_entryTime = 2, pos_type = Long \<rparr>],
              pf_transactions = [\<lparr> tx_id = ''tx_2_a'', tx_symbol = ''BTC'', tx_type = Buy,
                                   tx_quantity = 1, tx_price = 100, tx_timestamp = 2,
                                   tx_portfolioId = ''portfolio_1_a'' \<rparr>],
              pf_createdAt = 1 \<rparr>"
  let ?t = "mkTrade ''BTC'' Buy 1 200"
  let ?st = "storeHolding Buy 1 50000"
  have s1: "?s1 = \<lparr> portfolios = [?p1], activePortfolioId = Some ''portfolio_1_a'' \<rparr>"
    by (simp add: store_defs)
  have h1: "activePortfolioId ?s1 = Some ''portfolio_1_a''" "''portfolio_1_a'' \<noteq> []"
      "getActivePortfolio ?s1 = Some ?p1" "tr_type ?t = Buy"
      "findIndex (\<lambda>p. pos_symbol p = tr_symbol ?t) (pf_positions ?p1) = Some 0"
      "\<not> pf_balance ?p1 < tr_quantity ?t * tr_price ?t"
      "pos_quantity (pf_positions ?p1 ! 0) + tr_quantity ?t \<noteq> 0"
    unfolding s1 by (simp_all add: getActivePortfolio_def mkTrade_def)
  have h2: "find (\<lambda>p. tp_portfolioId p = ''test-portfolio-1'' \<and> tp_symbol p = ''BTC'')
              (st_positions ?st) = Some (samplePosition Buy 1 50000)"
      "tp_side (samplePosition Buy 1 50000) = Buy"
      "tp_quantity (samplePosition Buy 1 50000) + 1 \<noteq> 0"
    by (simp_all add: storeHolding_def samplePosition_def)
  from same_side_merge[of ?s1 "''portfolio_1_a''" ?p1 ?t 0 "mkEnv ''3_a'' 3"
      "''test-portfolio-1''" "''BTC''" ?st "samplePosition Buy 1 50000" Buy 1 52000 Market
      "mkStoreEnv ''2_a'' 2"] h1 h2
  show ?thesis
    unfolding s1
    by (auto simp: mkTrade_def storeHolding_def samplePosition_def mkStoreEnv_def)
qed

subsection \<open>Partial close\<close>




subsection \<open>Full close\<close>

lemma executeSell_full:
  assumes "findIndex (\<lambda>p. pos_symbol p = tr_symbol t) (pf_positions p) = Some j"
    and "pos_quantity (pf_positions p ! j) = tr_quantity t"
  shows "executeSell p a t e =
           (Executed,
            p \<lparr> pf_positions := splice1 j (pf_positions p),
                pf_balance := pf_balance p + tr_quantity t * tr_price t,
                pf_currentBalance := pf_balance p + tr_quantity t * tr_price t,
                pf_transactions :=
                  pf_transactions p @
                    [\<lparr> tx_id = ''tx_'' @ env_txTail e, tx_symbol = tr_symbol t, tx_type = Sell,
                       tx_quantity = tr_quantity t, tx_price = tr_price t,
                       tx_timestamp = env_txTime e, tx_portfolioId = a \<rparr>] \<rparr>)"
  using assms by (simp add: executeSell_def Let_def)

text \<open>
  In the portfolio store a sell of exactly the held quantity removes the position and
  appends exactly one transaction.
\<close>

lemma full_close_portfolio_store:
  assumes a: "activePortfolioId state = Some a" "a \<noteq> []"
    and p: "getActivePortfolio state = Some portfolio"
    and b: "tr_type trade = Sell"
    and j: "findIndex (\<lambda>p. pos_symbol p = tr_symbol trade) (pf_positions portfolio) = Some j"
    and q: "pos_quantity (pf_positions portfolio ! j) = tr_quantity trade"
  shows "fst (executeTrade state trade env) = Executed
       \<and> (\<exists>portfolio'.
             getActivePortfolio (snd (executeTrade state trade env)) = Some portfolio'
             \<and> pf_positions portfolio' = splice1 j (pf_positions portfolio)
             \<and> length (pf_positions portfolio') + 1 = length (pf_positions portfolio)
             \<and> pf_transactions portfolio' =
                 pf_transactions portfolio @
                   [\<lparr> tx_id = ''tx_'' @ env_txTail env, tx_symbol = tr_symbol trade,
                      tx_type = Sell, tx_quantity = tr_quantity trade,
                      tx_price = tr_price trade, tx_timestamp = env_txTime env,
                      tx_portfolioId = a \<rparr>])"
proof -
  note sell = executeSell_full[OF j q, of a env]
  from executeTrade_on_active(1)[OF a p, of trade env] b sell
  have ok: "fst (executeTrade state trade env) = Executed" by simp
  from executeTrade_on_active(2)[OF a p ok] b
  have act: "getActivePortfolio (snd (executeTrade state trade env)) =
          Some (snd (executeSell portfolio a trade env))" by simp
  from findIndex_Some[OF j] have "j < length (pf_positions portfolio)" by simp
  then have "length (splice1 j (pf_positions portfolio)) + 1 = length (pf_positions portfolio)"
    by (simp add: splice1_def)
  with ok act show ?thesis by (simp add: sell)
qed

text \<open>
  C5. In the position store the same trade removes the position and records the fill
  twice: \<open>executeTrade\<close> adds its transaction, then calls \<open>closePosition\<close>, which adds a
  closing transaction for the same side, quantity and price. With 1 BTC held long, selling
  1 at 55000 leaves no position and two sell transactions.
\<close>

theorem full_close_recorded_twice:
  "st_positions (snd (ps_executeTrade (storeHolding Buy 1 50000) ''test-portfolio-1'' ''BTC''
                        Sell 1 55000 Market (mkStoreEnv ''2_a'' 2))) = []
   \<and> map (\<lambda>t. (tt_id t, tt_side t, tt_quantity t, tt_price t))
         (st_transactions (snd (ps_executeTrade (storeHolding Buy 1 50000) ''test-portfolio-1''
                                  ''BTC'' Sell 1 55000 Market (mkStoreEnv ''2_a'' 2))))
       = [(''tx_2_a'', Sell, 1, 55000), (''tx_2_ac'', Sell, 1, 55000)]"
  by (simp add: position_store_defs)

subsection \<open>Valuation\<close>

text \<open>
  C7 (as worded). The claimed formula takes the map's price whenever the map has one. The
  code reads the map with \<open>||\<close>, so a stored price of 0 also falls back: holding 1 BTC
  entered at 50000 with cash 50000, the price map \<open>{BTC: 0}\<close> gives 100000, not 50000.
  The analytics \<open>calculatePortfolioValue\<close> falls back to the cached current price, not to
  the entry price: 1 unit entered at 100 whose cached price is 120 is valued 120 under an
  empty map, not 100.
\<close>

theorem valuation_as_worded_fails:
  "getPortfolioValue \<lparr> portfolios = [sampleAfterBuy], activePortfolioId = Some ''portfolio_1_a'' \<rparr>
       ''portfolio_1_a'' [''BTC'' \<mapsto> 0] = 100000
   \<and> spec_portfolioValue (pf_balance sampleAfterBuy) (holdingsOf sampleAfterBuy) [''BTC'' \<mapsto> 0]
       = 50000
   \<and> getPortfolioValue \<lparr> portfolios = [sampleAfterBuy], activePortfolioId = Some ''portfolio_1_a'' \<rparr>
         ''portfolio_1_a'' [''BTC'' \<mapsto> 0]
       \<noteq> spec_portfolioValue (pf_balance sampleAfterBuy) (holdingsOf sampleAfterBuy)
           [''BTC'' \<mapsto> 0]
   \<and> calculatePortfolioValue 0 [(samplePosition Buy 1 100) \<lparr> tp_currentPrice := 120 \<rparr>] Map.empty
       = 120
   \<and> spec_portfolioValue 0
         (tradingHoldings [(samplePosition Buy 1 100) \<lparr> tp_currentPrice := 120 \<rparr>]) Map.empty
       = 100"
  by (simp add: getPortfolioValue_def sampleAfterBuy_def priceOr_def spec_portfolioValue_def
        holdingsOf_def calculatePortfolioValue_def calculatePositionValue_def
        samplePosition_def tradingHoldings_def)

text \<open>
  C7 (amended). \<open>getPortfolioValue\<close> of a portfolio of the store is its cash plus, over
  its positions, quantity times the map's price for the symbol, or the entry price when
  the map has no price for it or has 0. \<open>calculatePortfolioValue\<close> is the cash plus
  quantity times the map's price, or the position's cached current price when the map has
  none or has 0. With no positions and the empty map both return exactly the cash.
\<close>

theorem portfolio_value_formula:
  "(find (\<lambda>p. pf_id p = portfolioId) (portfolios state) = Some portfolio \<longrightarrow>
      getPortfolioValue state portfolioId currentPrices =
        pf_balance portfolio +
          (\<Sum>position \<leftarrow> pf_positions portfolio.
             pos_quantity position *
               (case currentPrices (pos_symbol position) of
                  None \<Rightarrow> pos_entryPrice position
                | Some v \<Rightarrow> if v = 0 then pos_entryPrice position else v))
      \<and> (pf_positions portfolio = [] \<longrightarrow>
            getPortfolioValue state portfolioId Map.empty = pf_balance portfolio))
   \<and> calculatePortfolioValue cash positions currentPrices =
        cash +
          (\<Sum>position \<leftarrow> positions.
             tp_quantity position *
               (case currentPrices (tp_symbol position) of
                  None \<Rightarrow> tp_currentPrice position
                | Some v \<Rightarrow> if v = 0 then tp_currentPrice position else v))
   \<and> calculatePortfolioValue cash [] Map.empty = cash"
proof -
  have store: "getPortfolioValue state portfolioId prices =
        pf_balance portfolio +
          (\<Sum>position \<leftarrow> pf_positions portfolio.
             pos_quantity position *
               (case prices (pos_symbol position) of
                  None \<Rightarrow> pos_entryPrice position
                | Some v \<Rightarrow> if v = 0 then pos_entryPrice position else v))"
    if "find (\<lambda>p. pf_id p = portfolioId) (portfolios state) = Some portfolio" for prices
    using that by (simp add: getPortfolioValue_def foldl_plus_sum_list priceOr_def)
  have util: "calculatePortfolioValue c ps prices =
        c + (\<Sum>position \<leftarrow> ps.
             tp_quantity position *
               (case prices (tp_symbol position) of
                  None \<Rightarrow> tp_currentPrice position
                | Some v \<Rightarrow> if v = 0 then tp_currentPrice position else v))" for c ps prices
    by (simp add: calculatePortfolioValue_def calculatePositionValue_def foldl_plus_sum_list
          priceOr_def)
  from store[of currentPrices] store[of Map.empty] util[of cash positions currentPrices]
    util[of cash "[]" Map.empty]
  show ?thesis by simp
qed

theorem portfolio_value_formula_witness:
  "getPortfolioValue \<lparr> portfolios = [sampleAfterBuy], activePortfolioId = Some ''portfolio_1_a'' \<rparr>
       ''portfolio_1_a'' [''BTC'' \<mapsto> 55000] = 105000
   \<and> getPortfolioValue \<lparr> portfolios = [sampleAfterBuy], activePortfolioId = Some ''portfolio_1_a'' \<rparr>
       ''portfolio_1_a'' [''ETH'' \<mapsto> 3000] = 100000
   \<and> getPortfolioValue freshStore ''portfolio_1_a'' Map.empty = 100000"
proof -
  let ?s = "\<lparr> portfolios = [sampleAfterBuy], activePortfolioId = Some ''portfolio_1_a'' \<rparr>"
  have f: "find (\<lambda>p. pf_id p = ''portfolio_1_a'') (portfolios ?s) = Some sampleAfterBuy"
    by (simp add: sampleAfterBuy_def)
  let ?p0 = "\<lparr> pf_id = ''portfolio_1_a'', pf_name = ''Main Portfolio'', pf_balance = 100000,
            pf_currentBalance = 100000, pf_initialBalance = 100000, pf_positions = [],
            pf_transactions = [], pf_createdAt = 1 \<rparr>"
  have g: "find (\<lambda>p. pf_id p = ''portfolio_1_a'') (portfolios freshStore) = Some ?p0"
    by (simp add: store_defs)
  from portfolio_value_formula[of "''portfolio_1_a''" ?s sampleAfterBuy "[''BTC'' \<mapsto> 55000]"] f
  have a: "getPortfolioValue ?s ''portfolio_1_a'' [''BTC'' \<mapsto> 55000] = 105000"
    by (simp add: sampleAfterBuy_def)
  from portfolio_value_formula[of "''portfolio_1_a''" ?s sampleAfterBuy "[''ETH'' \<mapsto> 3000]"] f
  have b: "getPortfolioValue ?s ''portfolio_1_a'' [''ETH'' \<mapsto> 3000] = 100000"
    by (simp add: sampleAfterBuy_def)
  from portfolio_value_formula[of "''portfolio_1_a''" freshStore ?p0] g
  have c: "getPortfolioValue freshStore ''portfolio_1_a'' Map.empty = 100000"
    by simp
  from a b c show ?thesis by simp
qed

text \<open>
  C10. For a portfolio id that no portfolio of the store carries, and any price map,
  \<open>getPortfolioValue\<close> and \<open>getTotalPnL\<close> both return 0; no error is signalled.
\<close>

theorem unknown_portfolio_valued_zero:
  assumes "\<forall>p \<in> set (portfolios state). pf_id p \<noteq> portfolioId"
  shows "getPortfolioValue state portfolioId currentPrices = 0
       \<and> getTotalPnL state portfolioId currentPrices = 0"
proof -
  have "find (\<lambda>p. pf_id p = portfolioId) (portfolios state) = None"
    using assms by (simp add: find_None_iff)
  then show ?thesis by (simp add: getPortfolioValue_def getTotalPnL_def)
qed

theorem unknown_portfolio_valued_zero_witness:
  "getPortfolioValue freshStore ''non-existent'' Map.empty = 0
   \<and> getTotalPnL freshStore ''non-existent'' Map.empty = 0"
proof -
  have "\<forall>p \<in> set (portfolios freshStore). pf_id p \<noteq> ''non-existent''"
    by (simp add: store_defs)
  from unknown_portfolio_valued_zero[OF this] show ?thesis .
qed

end
